theory Spec2Isabelle
  imports Main
begin

section \<open>JavaScript values used by both files\<close>

text \<open>
  Strings are lists of code units (each below 256). Thrown values are the kinds of
  \<open>Error\<close> that the modelled code can meet: the \<open>SyntaxError\<close> of \<open>JSON.parse\<close>, the
  \<open>TypeError\<close> of a call or a property read on a value that has no such member, the
  system error of a file operation of Node (\<open>ENOENT\<close>, \<open>EISDIR\<close>, ...), and the plain
  \<open>Error\<close> that a library throws with \<open>new Error(message)\<close>. Each carries its message, and
  each is an instance of \<open>Error\<close>.
\<close>

datatype js_error =
  SyntaxError string | TypeError string | SystemError string | PlainError string

fun instanceof_Error :: "js_error \<Rightarrow> bool" where
  "instanceof_Error (SyntaxError m) = True"
| "instanceof_Error (TypeError m) = True"
| "instanceof_Error (SystemError m) = True"
| "instanceof_Error (PlainError m) = True"

fun error_message :: "js_error \<Rightarrow> string" where
  "error_message (SyntaxError m) = m"
| "error_message (TypeError m) = m"
| "error_message (SystemError m) = m"
| "error_message (PlainError m) = m"

subsection \<open>String methods\<close>

text \<open>\<open>String.prototype.trim\<close> removes white space and line terminators at both ends; among
  the code units below 256 these are tab, line feed, vertical tab, form feed, carriage
  return, space and the no-break space.\<close>

definition is_whitespace :: "char \<Rightarrow> bool" where
  "is_whitespace c =
     (c \<in> set [CHR 0x09, CHR 0x0A, CHR 0x0B, CHR 0x0C, CHR 0x0D, CHR 0x20, CHR 0xA0])"

definition js_trim :: "string \<Rightarrow> string" where
  "js_trim s = rev (dropWhile is_whitespace (rev (dropWhile is_whitespace s)))"

text \<open>\<open>s.startsWith(p)\<close>.\<close>

fun startsWith :: "string \<Rightarrow> string \<Rightarrow> bool" where
  "startsWith s [] = True"
| "startsWith [] (p # ps) = False"
| "startsWith (c # cs) (p # ps) = (c = p \<and> startsWith cs ps)"

text \<open>\<open>s.includes(p)\<close>; \<open>s.indexOf(p) === -1\<close> is its negation.\<close>

fun js_includes :: "string \<Rightarrow> string \<Rightarrow> bool" where
  "js_includes [] p = (p = [])"
| "js_includes (c # cs) p = (startsWith (c # cs) p \<or> js_includes cs p)"

text \<open>\<open>s.replace(/p/, r)\<close> for a pattern that matches the literal text \<open>p\<close> only: the first
  occurrence is replaced.\<close>

fun replace_first :: "string \<Rightarrow> string \<Rightarrow> string \<Rightarrow> string" where
  "replace_first [] p r = (if p = [] then r else [])"
| "replace_first (c # cs) p r =
     (if startsWith (c # cs) p then r @ drop (length p) (c # cs)
      else c # replace_first cs p r)"

text \<open>\<open>s.split(d)\<close> for a separator of one code unit: the result is never empty.\<close>

fun js_split :: "char \<Rightarrow> string \<Rightarrow> string list" where
  "js_split d [] = [[]]"
| "js_split d (c # cs) =
     (if c = d then [] # js_split d cs
      else (case js_split d cs of
              [] \<Rightarrow> [[c]]
            | x # xs \<Rightarrow> (c # x) # xs))"


section \<open>The ruff linter: \<open>src/features/linters/ruff.ts\<close>\<close>

subsection \<open>Numbers\<close>

text \<open>A number of ruff's output is an integer, held as a double. A subtraction of doubles is
  the exact difference rounded to the nearest double, ties to the even significand:
  \<open>double_round\<close> is that rounding on the integers (of a magnitude below \<open>2^1024\<close>). Below
  \<open>2^53\<close> every integer is a double; above, the significand keeps the 53 leading bits.\<close>

fun bit_length :: "nat \<Rightarrow> nat" where
  "bit_length n = (if n = 0 then 0 else Suc (bit_length (n div 2)))"

declare bit_length.simps [simp del]

definition double_round :: "int \<Rightarrow> int" where
  "double_round n =
     (let a = nat \<bar>n\<bar> in
      if a < 2 ^ 53 then n
      else (let e = bit_length a - 53;
                q = a div 2 ^ e;
                r = a mod 2 ^ e;
                h = 2 ^ (e - 1);
                q' = (if h < r \<or> (r = h \<and> odd q) then Suc q else q)
            in sgn n * int (q' * 2 ^ e)))"

text \<open>The result of an arithmetic operation: a number or \<open>NaN\<close>.\<close>

datatype js_number = Num int | NaN

subsection \<open>Data\<close>

text \<open>A property of an object that \<open>JSON.parse\<close> has built: absent (reading it gives
  \<open>undefined\<close>), \<open>null\<close>, or a value of the type that the interface declares for it.\<close>

datatype 'a field = Undefined | Null | Value 'a

text \<open>The interfaces \<open>IRuffLocation\<close>, \<open>IRuffFix\<close> and \<open>IRuffLintMessage\<close>. The field \<open>kind\<close> of
  \<open>IRuffLintMessage\<close> is never read and is left out.\<close>

record IRuffLocation =
  row :: "int field"
  column :: "int field"

record IRuffFix =
  content :: "string field"
  fix_location :: "IRuffLocation field"
  fix_end_location :: "IRuffLocation field"

record IRuffLintMessage =
  code :: "string field"
  message :: "string field"
  fix' :: "IRuffFix field"
  location :: "IRuffLocation field"
  end_location :: "IRuffLocation field"
  filename :: "string field"

text \<open>The types of \<open>coc.nvim\<close> that the linter builds: \<open>Position\<close>, \<open>Range\<close>, \<open>TextEdit\<close>, and a
  \<open>WorkspaceEdit\<close> whose \<open>changes\<close> object is a list of pairs of a document URI and its
  edits, in insertion order.\<close>

record Position =
  pos_line :: int
  character :: int

record Range =
  start :: Position
  end' :: Position

record TextEdit =
  range :: Range
  newText :: "string field"

record WorkspaceEdit =
  changes :: "(string \<times> TextEdit list) list"

text \<open>\<open>Range.create(one, two, three, four)\<close>, called with numbers or with absent values. It
  builds the range when each argument is a number from 0 to 2147483647 (the test
  \<open>Is.uinteger\<close> of the library), and otherwise throws an \<open>Error\<close> whose message lists the
  arguments as a template literal prints them; \<open>num_str\<close> is \<open>Number.prototype.toString\<close>.\<close>

fun is_uinteger :: "js_number field \<Rightarrow> bool" where
  "is_uinteger (Value (Num n)) = (0 \<le> n \<and> n \<le> 2147483647)"
| "is_uinteger (Value NaN) = False"
| "is_uinteger Undefined = False"
| "is_uinteger Null = False"

text \<open>The number that an argument holds; it is read only of an argument that
  \<open>is_uinteger\<close> accepts.\<close>

fun number_of :: "js_number field \<Rightarrow> int" where
  "number_of (Value (Num n)) = n"
| "number_of (Value NaN) = 0"
| "number_of Undefined = 0"
| "number_of Null = 0"

fun arg_text :: "(int \<Rightarrow> string) \<Rightarrow> js_number field \<Rightarrow> string" where
  "arg_text num_str (Value (Num n)) = num_str n"
| "arg_text num_str (Value NaN) = ''NaN''"
| "arg_text num_str Undefined = ''undefined''"
| "arg_text num_str Null = ''null''"

definition Range_create ::
  "(int \<Rightarrow> string) \<Rightarrow> js_number field \<Rightarrow> js_number field \<Rightarrow> js_number field
     \<Rightarrow> js_number field \<Rightarrow> js_error + Range" where
  "Range_create num_str one two three four =
     (if is_uinteger one \<and> is_uinteger two \<and> is_uinteger three \<and> is_uinteger four
      then Inr \<lparr>start = \<lparr>pos_line = number_of one, character = number_of two\<rparr>,
                end' = \<lparr>pos_line = number_of three, character = number_of four\<rparr>\<rparr>
      else Inl (PlainError (''Range#create called with invalid arguments[''
                  @ arg_text num_str one @ '', '' @ arg_text num_str two @ '', ''
                  @ arg_text num_str three @ '', '' @ arg_text num_str four @ '']'')))"

definition TextEdit_replace :: "Range \<Rightarrow> string field \<Rightarrow> TextEdit" where
  "TextEdit_replace r t = \<lparr>range = r, newText = t\<rparr>"

text \<open>The enumerations \<open>DiagnosticTag\<close> of \<open>coc.nvim\<close> and \<open>LintMessageSeverity\<close> of
  \<open>types.ts\<close>; the linter uses the members \<open>Unnecessary\<close> and \<open>Warning\<close> only.\<close>

datatype DiagnosticTag = Unnecessary | Deprecated

datatype LintMessageSeverity = Hint | Error | Warning | Information

text \<open>The object literal that \<open>parseMessages\<close> casts to \<open>ILintMessage\<close>: the properties that
  are copied from the entry are absent or \<open>null\<close> when they are so in the entry.\<close>

record ILintMessage =
  line :: "int field"
  msg_column :: js_number
  endLine :: "int field"
  endColumn :: "int field"
  msg_code :: "string field"
  msg_message :: "string field"
  type' :: string
  severity :: LintMessageSeverity
  tags :: "DiagnosticTag list"
  provider :: string
  file' :: "string field"
  msg_fix :: "WorkspaceEdit option"

text \<open>What \<open>JSON.parse(output)\<close> returns when it does not throw: an array, whose elements the
  callback of \<open>map\<close> takes as \<open>IRuffLintMessage\<close> (an element may be \<open>null\<close>); \<open>null\<close>; or any
  other value (an object, a string, a number, a boolean), which has no callable \<open>map\<close>.\<close>

datatype parsed = JArray "IRuffLintMessage field list" | JNull | JOther

subsection \<open>Operations of the language\<close>

text \<open>Reading the property \<open>prop\<close> of the value of an object-typed property: the read throws
  a \<open>TypeError\<close> when that value is \<open>undefined\<close> or \<open>null\<close> (the messages are those of V8).\<close>

fun read_from :: "string \<Rightarrow> 'a field \<Rightarrow> js_error + 'a" where
  "read_from prop (Value x) = Inr x"
| "read_from prop Undefined =
     Inl (TypeError (''Cannot read properties of undefined (reading '' @ [CHR 0x27] @ prop
            @ [CHR 0x27] @ '')''))"
| "read_from prop Null =
     Inl (TypeError (''Cannot read properties of null (reading '' @ [CHR 0x27] @ prop
            @ [CHR 0x27] @ '')''))"

text \<open>\<open>x - k\<close> for a numeric property \<open>x\<close> and a number \<open>k\<close>: \<open>undefined\<close> converts to \<open>NaN\<close>
  and \<open>null\<close> to 0.\<close>

fun js_minus :: "int field \<Rightarrow> int \<Rightarrow> js_number" where
  "js_minus (Value n) k = Num (double_round (n - k))"
| "js_minus Null k = Num (double_round (0 - k))"
| "js_minus Undefined k = NaN"

text \<open>\<open>xs.map(f)\<close> for a callback that may throw: the first element on which the callback
  throws ends the call.\<close>

fun map_throwing :: "('a \<Rightarrow> js_error + 'b) \<Rightarrow> 'a list \<Rightarrow> js_error + 'b list" where
  "map_throwing f [] = Inr []"
| "map_throwing f (x # xs) =
     (case f x of
        Inl e \<Rightarrow> Inl e
      | Inr y \<Rightarrow>
          (case map_throwing f xs of
             Inl e \<Rightarrow> Inl e
           | Inr ys \<Rightarrow> Inr (y # ys)))"

subsection \<open>Operations of the linter\<close>

definition COLUMN_OFF_SET :: int where
  "COLUMN_OFF_SET = 1"

text \<open>\<open>fixToWorkspaceEdit\<close>: the thrown value on the left, the returned value on the right
  (\<open>None\<close> is \<open>null\<close>). \<open>Uri.parse(filename).toString()\<close> is a function of \<open>coc.nvim\<close>, taken
  as the parameter \<open>uri\<close>. The arguments of \<open>Range.create\<close> are evaluated from left to
  right.\<close>

definition fixToWorkspaceEdit ::
  "(string field \<Rightarrow> string) \<Rightarrow> (int \<Rightarrow> string) \<Rightarrow> string field \<Rightarrow> IRuffFix field
     \<Rightarrow> js_error + WorkspaceEdit option" where
  "fixToWorkspaceEdit uri num_str fname fx =
     (case fx of
        Undefined \<Rightarrow> Inr None
      | Null \<Rightarrow> Inr None
      | Value f \<Rightarrow>
          (let u = uri fname in
           case read_from ''row'' (fix_location f) of
             Inl e \<Rightarrow> Inl e
           | Inr loc \<Rightarrow>
               (case read_from ''row'' (fix_end_location f) of
                  Inl e \<Rightarrow> Inl e
                | Inr eloc \<Rightarrow>
                    (case Range_create num_str
                            (Value (js_minus (row loc) 1)) (map_field Num (column loc))
                            (Value (js_minus (row eloc) 1)) (map_field Num (column eloc)) of
                       Inl e \<Rightarrow> Inl e
                     | Inr r \<Rightarrow>
                         Inr (Some \<lparr>changes = [(u, [TextEdit_replace r (content f)])]\<rparr>)))))"

text \<open>The callback given to \<open>map\<close> in \<open>parseMessages\<close>, on one element of the array;
  \<open>info_id\<close> is \<open>this.info.id\<close>. The properties of the object literal are evaluated in their
  order: \<open>msg.location.row\<close> first, which throws when the element is \<open>null\<close> or has no
  \<open>location\<close>.\<close>

definition ruff_message ::
  "(string field \<Rightarrow> string) \<Rightarrow> (int \<Rightarrow> string) \<Rightarrow> string \<Rightarrow> IRuffLintMessage field
     \<Rightarrow> js_error + ILintMessage" where
  "ruff_message uri num_str info_id element =
     (case read_from ''location'' element of
        Inl e \<Rightarrow> Inl e
      | Inr msg \<Rightarrow>
          (case read_from ''row'' (location msg) of
             Inl e \<Rightarrow> Inl e
           | Inr loc \<Rightarrow>
               (case read_from ''row'' (end_location msg) of
                  Inl e \<Rightarrow> Inl e
                | Inr eloc \<Rightarrow>
                    (case fixToWorkspaceEdit uri num_str (filename msg) (fix' msg) of
                       Inl e \<Rightarrow> Inl e
                     | Inr fx \<Rightarrow>
                         Inr \<lparr>line = row loc,
                              msg_column = js_minus (column loc) COLUMN_OFF_SET,
                              endLine = row eloc,
                              endColumn = column eloc,
                              msg_code = code msg,
                              msg_message = message msg,
                              type' = '''',
                              severity = Warning,
                              tags = (if code msg \<in> set [Value ''F401'', Value ''F841'']
                                      then [Unnecessary] else []),
                              provider = info_id,
                              file' = filename msg,
                              msg_fix = fx\<rparr>))))"

text \<open>The \<open>try\<close> block of \<open>parseMessages\<close>: \<open>JSON.parse\<close> is the parameter \<open>json_parse\<close>, which
  returns the thrown \<open>SyntaxError\<close> on the left. Calling \<open>map\<close> on a value that is not an array
  throws a \<open>TypeError\<close> (the messages are those of V8).\<close>

definition parse_try ::
  "(string \<Rightarrow> js_error + parsed) \<Rightarrow> (string field \<Rightarrow> string) \<Rightarrow> (int \<Rightarrow> string) \<Rightarrow> string
     \<Rightarrow> string \<Rightarrow> js_error + ILintMessage list" where
  "parse_try json_parse uri num_str info_id output =
     (case json_parse output of
        Inl e \<Rightarrow> Inl e
      | Inr (JArray entries) \<Rightarrow> map_throwing (ruff_message uri num_str info_id) entries
      | Inr JNull \<Rightarrow> Inl (TypeError ''Cannot read properties of null (reading 'map')'')
      | Inr JOther \<Rightarrow> Inl (TypeError ''JSON.parse(...).map is not a function''))"

text \<open>\<open>parseMessages\<close>, with the output channel as the list of the lines appended to it: the
  function returns the messages and the channel.\<close>

definition parseMessages ::
  "(string \<Rightarrow> js_error + parsed) \<Rightarrow> (string field \<Rightarrow> string) \<Rightarrow> (int \<Rightarrow> string) \<Rightarrow> string
     \<Rightarrow> string list \<Rightarrow> string \<Rightarrow> ILintMessage list \<times> string list" where
  "parseMessages json_parse uri num_str info_id outputChannel output =
     (case parse_try json_parse uri num_str info_id output of
        Inr messages \<Rightarrow> (messages, outputChannel)
      | Inl err \<Rightarrow>
          (let ch1 = outputChannel @ [''Linting with '' @ info_id @ '' failed:''];
               ch2 = (if instanceof_Error err then ch1 @ [error_message err] else ch1)
           in ([], ch2)))"

subsection \<open>Entries as ruff writes them\<close>









section \<open>The interpreter settings: \<open>src/configSettings.ts\<close>\<close>

subsection \<open>The process and its surroundings\<close>

text \<open>What the code reads from Node and from the machine, and never changes: the platform,
  the functions of \<open>path\<close>, the file system (\<open>fs.existsSync\<close>, \<open>fs.readFileSync(p).toString()\<close>,
  \<open>fs.readdirSync\<close>; the last two throw on the left), the standard output of a child process
  given the environment, the command, its arguments and the \<open>cwd\<close> option (\<open>None\<close> is the
  \<open>null\<close> that \<open>spawnSync\<close> leaves in \<open>stdout\<close> when the command cannot be spawned),
  \<open>which.sync\<close> with \<open>nothrow\<close> (\<open>None\<close> is \<open>null\<close>), \<open>untildify\<close>, and \<open>resolve\<close> of the class
  \<open>SystemVariables\<close>.\<close>

record sys =
  platform :: string
  path_sep :: string
  path_join :: "string list \<Rightarrow> string"
  path_basename :: "string \<Rightarrow> string"
  path_dirname :: "string \<Rightarrow> string"
  existsSync :: "string \<Rightarrow> bool"
  readFileSync :: "string \<Rightarrow> js_error + string"
  readdirSync :: "string \<Rightarrow> js_error + string list"
  child_stdout :: "(string \<rightharpoonup> string) \<Rightarrow> string \<Rightarrow> string list \<Rightarrow> string option \<Rightarrow> string option"
  which_sync :: "(string \<rightharpoonup> string) \<Rightarrow> string \<Rightarrow> string option"
  untildify :: "string \<Rightarrow> string"
  systemVariables_resolve :: "string \<Rightarrow> string"

text \<open>What the code changes: \<open>process.env\<close>, the values given to \<open>console.error\<close>, and the
  trace of the searches of the search path and of the child processes it has run.\<close>

datatype call = Which string | Spawn string "string list" "string option"

record proc =
  env :: "string \<rightharpoonup> string"
  console :: "js_error list"
  calls :: "call list"

text \<open>The private fields of the class \<open>PythonSettings\<close> that the modelled methods use.\<close>

record PythonSettings =
  workspaceRoot :: string
  priv_pythonPath :: string
  priv_configPythonPath :: string
  priv_stdLibs :: "string list"
  priv_configStdLibs :: "string list"

text \<open>\<open>process.env.NAME\<close> where the code tests it and then uses it as a string: a variable
  that is not set and one set to the empty string are both falsy, and are both \<open>[]\<close> here.\<close>

definition env_value :: "proc \<Rightarrow> string \<Rightarrow> string" where
  "env_value pr name = (case env pr name of None \<Rightarrow> [] | Some v \<Rightarrow> v)"

text \<open>\<open>child_process.spawnSync(cmd, args, {encoding: 'utf8', cwd}).stdout\<close>.\<close>

definition spawnSync :: "sys \<Rightarrow> string \<Rightarrow> string list \<Rightarrow> string option \<Rightarrow> proc \<Rightarrow> string option \<times> proc" where
  "spawnSync s cmd args cwd pr =
     (child_stdout s (env pr) cmd args cwd, pr\<lparr>calls := calls pr @ [Spawn cmd args cwd]\<rparr>)"

subsection \<open>\<open>resolvePythonFromVENV\<close>\<close>

definition pythonBinFromPath :: "sys \<Rightarrow> string \<Rightarrow> string option" where
  "pythonBinFromPath s p =
     (let fullPath = (if platform s = ''win32'' then path_join s [p, ''Scripts'', ''python.exe'']
                      else path_join s [p, ''bin'', ''python''])
      in if existsSync s fullPath then Some fullPath else None)"

text \<open>The first element of the array that \<open>split\<close> returns (\<open>undefined\<close>, which
  \<open>process.env\<close> would store as a string, if the array were empty).\<close>

definition first_item :: "string list \<Rightarrow> string" where
  "first_item xs = (case xs of [] \<Rightarrow> ''undefined'' | x # _ \<Rightarrow> x)"

text \<open>The loop over the lines of \<open>poetry env list\<close>: \<open>info\<close> is the value of the variable
  before the remaining items are visited.\<close>

fun poetry_info :: "string list \<Rightarrow> string \<Rightarrow> string" where
  "poetry_info [] info = info"
| "poetry_info (item # items) info =
     (if js_includes item ''(Activated)''
      then js_trim (replace_first item ''(Activated)'' '''')
      else poetry_info items item)"

text \<open>The loop over the entries of the workspace root; falling out of it, the function
  returns \<open>undefined\<close>.\<close>

fun workspace_venv :: "sys \<Rightarrow> string \<Rightarrow> string list \<Rightarrow> string option" where
  "workspace_venv s root [] = None"
| "workspace_venv s root (f # fs) =
     (let x = path_join s [root, f]
      in if existsSync s (path_join s [x, ''pyvenv.cfg'']) then pythonBinFromPath s x
         else workspace_venv s root fs)"

definition workspace_probe :: "sys \<Rightarrow> string \<Rightarrow> proc \<Rightarrow> (js_error + string option) \<times> proc" where
  "workspace_probe s root pr =
     (case readdirSync s root of
        Inl e \<Rightarrow> (Inl e, pr)
      | Inr files \<Rightarrow> (Inr (workspace_venv s root files), pr))"

text \<open>The \<open>try\<close> block: a thrown value on the left, the returned value on the right
  (\<open>None\<close> is \<open>undefined\<close>). Calling \<open>trim\<close> on a \<open>stdout\<close> that is \<open>null\<close> throws a \<open>TypeError\<close>.\<close>

definition resolve_try :: "sys \<Rightarrow> string \<Rightarrow> proc \<Rightarrow> (js_error + string option) \<times> proc" where
  "resolve_try s root pr =
     (if env_value pr ''VIRTUAL_ENV'' \<noteq> []
         \<and> existsSync s (path_join s [env_value pr ''VIRTUAL_ENV'', ''pyvenv.cfg''])
      then (Inr (pythonBinFromPath s (env_value pr ''VIRTUAL_ENV'')), pr)
      else if env_value pr ''CONDA_PREFIX'' \<noteq> []
      then (Inr (pythonBinFromPath s (env_value pr ''CONDA_PREFIX'')), pr)
      else if existsSync s (path_join s [root, ''.python-version''])
      then (if env_value pr ''PYENV_VERSION'' = []
            then (case readFileSync s (path_join s [root, ''.python-version'']) of
                    Inl e \<Rightarrow> (Inl e, pr)
                  | Inr txt \<Rightarrow>
                      (Inr None,
                       pr\<lparr>env := (env pr)(''PYENV_VERSION'' \<mapsto>
                                         first_item (js_split (CHR 0x0A) (js_trim txt)))\<rparr>))
            else (Inr None, pr))
      else if existsSync s (path_join s [root, ''Pipfile''])
      then (case spawnSync s ''pipenv'' [''--py''] None pr of
              (None, pr') \<Rightarrow>
                (Inl (TypeError ''Cannot read properties of null (reading 'trim')''), pr')
            | (Some out, pr') \<Rightarrow> (Inr (Some (js_trim out)), pr'))
      else if existsSync s (path_join s [root, ''poetry.lock''])
      then (case spawnSync s ''poetry'' [''env'', ''list'', ''--full-path'', ''--no-ansi'']
                   (Some root) pr of
              (None, pr') \<Rightarrow>
                (Inl (TypeError ''Cannot read properties of null (reading 'trim')''), pr')
            | (Some out, pr') \<Rightarrow>
                (let info = poetry_info (js_split (CHR 0x0A) (js_trim out)) ''''
                 in if info \<noteq> [] then (Inr (pythonBinFromPath s info), pr')
                    else workspace_probe s root pr'))
      else workspace_probe s root pr)"

text \<open>\<open>resolvePythonFromVENV\<close>: the \<open>catch\<close> gives the thrown value to \<open>console.error\<close>, and
  the function returns \<open>undefined\<close>.\<close>

definition resolvePythonFromVENV :: "sys \<Rightarrow> PythonSettings \<Rightarrow> proc \<Rightarrow> string option \<times> proc" where
  "resolvePythonFromVENV s st pr =
     (case resolve_try s (workspaceRoot st) pr of
        (Inr r, pr') \<Rightarrow> (r, pr')
      | (Inl e, pr') \<Rightarrow> (None, pr'\<lparr>console := console pr' @ [e]\<rparr>))"

subsection \<open>\<open>getPythonExecutable\<close>, \<open>isValidPythonPath\<close>, \<open>getStdLibs\<close>\<close>

definition isValidPythonPath :: "sys \<Rightarrow> string \<Rightarrow> proc \<Rightarrow> bool \<times> proc" where
  "isValidPythonPath s pythonPath pr =
     (case spawnSync s pythonPath [''-c'', ''print(1234)''] None pr of
        (None, pr') \<Rightarrow> (False, pr')
      | (Some out, pr') \<Rightarrow> (startsWith out ''1234'', pr'))"

text \<open>The condition of the lookup in \<open>getPythonExecutable\<close>, on the path that \<open>untildify\<close>
  returned.\<close>

definition only_python :: "sys \<Rightarrow> string \<Rightarrow> bool" where
  "only_python s pythonPath =
     (pythonPath = ''python'' \<or> \<not> js_includes pythonPath (path_sep s)
      \<or> path_basename s pythonPath = path_dirname s pythonPath)"

definition lookup :: "sys \<Rightarrow> string \<Rightarrow> proc \<Rightarrow> string \<times> proc" where
  "lookup s pythonPath pr =
     (if only_python s pythonPath
      then ((case which_sync s (env pr) pythonPath of
               None \<Rightarrow> pythonPath
             | Some bin \<Rightarrow> if bin \<noteq> [] then bin else pythonPath),
            pr\<lparr>calls := calls pr @ [Which pythonPath]\<rparr>)
      else (pythonPath, pr))"

definition getPythonExecutable :: "sys \<Rightarrow> string \<Rightarrow> proc \<Rightarrow> string \<times> proc" where
  "getPythonExecutable s value pr =
     (case lookup s (untildify s value) pr of
        (pythonPath, pr1) \<Rightarrow>
          (case isValidPythonPath s pythonPath pr1 of
             (valid, pr2) \<Rightarrow> (if valid then pythonPath else pythonPath, pr2)))"

definition getStdLibs :: "sys \<Rightarrow> string \<Rightarrow> proc \<Rightarrow> string list \<times> proc" where
  "getStdLibs s pythonPath pr =
     (case spawnSync s pythonPath [''-c'', ''import site;print(site.getsitepackages()[0])''] None pr of
        (None, pr1) \<Rightarrow> ([], pr1)
      | (Some sitePkgs, pr1) \<Rightarrow>
          (case spawnSync s pythonPath [''-c'', ''import site;print(site.getusersitepackages())'']
                  None pr1 of
             (None, pr2) \<Rightarrow> ([], pr2)
           | (Some userPkgs, pr2) \<Rightarrow> ([js_trim sitePkgs, js_trim userPkgs], pr2)))"

subsection \<open>The setters and \<open>update\<close>\<close>

text \<open>The setters of \<open>pythonPath\<close> and \<open>configPythonPath\<close>. Nothing in their \<open>try\<close> block
  throws on a string: \<open>which.sync\<close> is called with \<open>nothrow\<close>, and \<open>isValidPythonPath\<close> and
  \<open>getStdLibs\<close> catch what their child processes throw. So the \<open>catch\<close> is not reached.\<close>

definition set_pythonPath :: "sys \<Rightarrow> string \<Rightarrow> PythonSettings \<times> proc \<Rightarrow> PythonSettings \<times> proc" where
  "set_pythonPath s value sp =
     (case sp of (st, pr) \<Rightarrow>
        if priv_pythonPath st = value then (st, pr)
        else (case getPythonExecutable s value pr of
                (p, pr1) \<Rightarrow>
                  (case getStdLibs s p pr1 of
                     (libs, pr2) \<Rightarrow> (st\<lparr>priv_pythonPath := p, priv_stdLibs := libs\<rparr>, pr2))))"

definition set_configPythonPath :: "sys \<Rightarrow> string \<Rightarrow> PythonSettings \<times> proc \<Rightarrow> PythonSettings \<times> proc" where
  "set_configPythonPath s value sp =
     (case sp of (st, pr) \<Rightarrow>
        if priv_configPythonPath st = value then (st, pr)
        else (case getPythonExecutable s value pr of
                (p, pr1) \<Rightarrow>
                  (case getStdLibs s p pr1 of
                     (libs, pr2) \<Rightarrow>
                       (st\<lparr>priv_configPythonPath := p, priv_configStdLibs := libs\<rparr>, pr2))))"

text \<open>The value that \<open>update\<close> gives to the setter of \<open>pythonPath\<close>: \<open>vp ? vp : resolve(...)\<close>,
  where \<open>configured\<close> is \<open>pythonSettings.get('pythonPath')\<close>.\<close>

definition chosen_path :: "sys \<Rightarrow> string option \<Rightarrow> string \<Rightarrow> string" where
  "chosen_path s vp configured =
     (case vp of
        None \<Rightarrow> systemVariables_resolve s configured
      | Some v \<Rightarrow> if v \<noteq> [] then v else systemVariables_resolve s configured)"

text \<open>The first three statements of \<open>update\<close>, which set the two paths; the rest of the
  method copies the settings of the linters, the formatters and the import sorter.\<close>

definition update_paths :: "sys \<Rightarrow> string \<Rightarrow> PythonSettings \<times> proc \<Rightarrow> PythonSettings \<times> proc" where
  "update_paths s configured sp =
     (case sp of (st, pr) \<Rightarrow>
        (case resolvePythonFromVENV s st pr of
           (vp, pr1) \<Rightarrow>
             set_configPythonPath s (systemVariables_resolve s configured)
               (set_pythonPath s (chosen_path s vp configured) (st, pr1))))"

section \<open>The wording of the specification\<close>

text \<open>The choice among the lines of \<open>poetry env list\<close> as the specification words it: the
  first line that contains the marker \<open>(Activated)\<close>, with the marker removed (and the rest
  trimmed, as the code does); the last line when no line is marked.\<close>

definition poetry_choice :: "string list \<Rightarrow> string" where
  "poetry_choice lines =
     (case find (\<lambda>l. js_includes l ''(Activated)'') lines of
        Some l \<Rightarrow> js_trim (replace_first l ''(Activated)'' '''')
      | None \<Rightarrow> (if lines = [] then [] else last lines))"

text \<open>A bare command name as the specification words its third case: a path whose last two
  segments are identical, where the segments are the parts between the separators.\<close>

definition path_segments :: "char \<Rightarrow> string \<Rightarrow> string list" where
  "path_segments sep p = filter (\<lambda>x. x \<noteq> []) (js_split sep p)"

definition last_two_segments_identical :: "char \<Rightarrow> string \<Rightarrow> bool" where
  "last_two_segments_identical sep p =
     (case rev (path_segments sep p) of
        a # b # _ \<Rightarrow> a = b
      | _ \<Rightarrow> False)"

section \<open>Concrete inputs\<close>

subsection \<open>Output of ruff\<close>

text \<open>The entry that the comment of \<open>ruff.ts\<close> shows; a second entry with another code and
  no \<open>fix\<close>; an entry whose fix starts in row 0; and the empty object.\<close>

definition entry_F401 :: IRuffLintMessage where
  "entry_F401 =
     \<lparr>code = Value ''F401'', message = Value ''numpy imported but unused'',
      fix' = Value \<lparr>content = Value '''',
                    fix_location = Value \<lparr>row = Value 3, column = Value 0\<rparr>,
                    fix_end_location = Value \<lparr>row = Value 4, column = Value 0\<rparr>\<rparr>,
      location = Value \<lparr>row = Value 3, column = Value 8\<rparr>,
      end_location = Value \<lparr>row = Value 3, column = Value 19\<rparr>,
      filename = Value ''/path/to/bug.py''\<rparr>"

definition entry_E501 :: IRuffLintMessage where
  "entry_E501 =
     \<lparr>code = Value ''E501'', message = Value ''Line too long'', fix' = Undefined,
      location = Value \<lparr>row = Value 7, column = Value 89\<rparr>,
      end_location = Value \<lparr>row = Value 7, column = Value 120\<rparr>,
      filename = Value ''/path/to/bug.py''\<rparr>"

definition entry_F841_row0 :: IRuffLintMessage where
  "entry_F841_row0 =
     \<lparr>code = Value ''F841'', message = Value ''Local variable x is assigned to but never used'',
      fix' = Value \<lparr>content = Value '''',
                    fix_location = Value \<lparr>row = Value 0, column = Value 0\<rparr>,
                    fix_end_location = Value \<lparr>row = Value 4, column = Value 0\<rparr>\<rparr>,
      location = Value \<lparr>row = Value 3, column = Value 5\<rparr>,
      end_location = Value \<lparr>row = Value 3, column = Value 6\<rparr>,
      filename = Value ''/path/to/bug.py''\<rparr>"

definition entry_empty :: IRuffLintMessage where
  "entry_empty =
     \<lparr>code = Undefined, message = Undefined, fix' = Undefined, location = Undefined,
      end_location = Undefined, filename = Undefined\<rparr>"

text \<open>\<open>JSON.parse\<close> on six texts: \<open>ruff_text\<close> stands for the JSON text of the array of the
  first two entries, and \<open>ruff_text_row0\<close> for that of the array of the second and the third;
  \<open>[{}]\<close> is the array of the empty object; \<open>null\<close> and \<open>{}\<close> are valid JSON and not arrays;
  every other text, such as \<open>not json\<close>, is refused with a \<open>SyntaxError\<close>.\<close>

definition ruff_text :: string where
  "ruff_text = ''[{F401 ...}, {E501 ...}]''"

definition ruff_text_row0 :: string where
  "ruff_text_row0 = ''[{E501 ...}, {F841 ... row 0 ...}]''"

definition json_parse_example :: "string \<Rightarrow> js_error + parsed" where
  "json_parse_example text =
     (if text = ruff_text then Inr (JArray [Value entry_F401, Value entry_E501])
      else if text = ruff_text_row0 then Inr (JArray [Value entry_E501, Value entry_F841_row0])
      else if text = ''[{}]'' then Inr (JArray [Value entry_empty])
      else if text = ''null'' then Inr JNull
      else if text = ''{}'' then Inr JOther
      else Inl (SyntaxError ''Unexpected token o in JSON at position 1''))"

text \<open>The URI of an absolute POSIX path.\<close>

definition uri_example :: "string field \<Rightarrow> string" where
  "uri_example fname =
     (case fname of
        Value p \<Rightarrow> ''file://'' @ p
      | Undefined \<Rightarrow> ''file:///undefined''
      | Null \<Rightarrow> ''file:///null'')"

text \<open>\<open>Number.prototype.toString\<close> on the integers below \<open>10^21\<close> in magnitude: the decimal
  digits, after a minus sign for a negative number.\<close>

definition digit :: "nat \<Rightarrow> char" where
  "digit d =
     (if d = 0 then CHR ''0'' else if d = 1 then CHR ''1'' else if d = 2 then CHR ''2''
      else if d = 3 then CHR ''3'' else if d = 4 then CHR ''4'' else if d = 5 then CHR ''5''
      else if d = 6 then CHR ''6'' else if d = 7 then CHR ''7'' else if d = 8 then CHR ''8''
      else CHR ''9'')"

fun digits :: "nat \<Rightarrow> string" where
  "digits n = (if n < 10 then [digit n] else digits (n div 10) @ [digit (n mod 10)])"

declare digits.simps [simp del]

definition number_text :: "int \<Rightarrow> string" where
  "number_text n = (if n < 0 then ''-'' @ digits (nat (- n)) else digits (nat n))"

subsection \<open>Machines\<close>

text \<open>The functions of \<open>path\<close> on a POSIX machine, for paths that hold no \<open>.\<close> or \<open>..\<close>
  segment, no doubled separator and no trailing separator (where \<open>path.join\<close> has nothing
  to normalise): \<open>join\<close> drops empty segments and puts a separator between the others.\<close>

fun join_segments :: "string list \<Rightarrow> string" where
  "join_segments [] = []"
| "join_segments [x] = x"
| "join_segments (x # y # ys) = x @ ''/'' @ join_segments (y # ys)"

definition posix_join :: "string list \<Rightarrow> string" where
  "posix_join segs =
     (let j = join_segments (filter (\<lambda>x. x \<noteq> []) segs) in if j = [] then ''.'' else j)"

definition posix_basename :: "string \<Rightarrow> string" where
  "posix_basename p = rev (takeWhile (\<lambda>c. c \<noteq> CHR ''/'') (rev p))"

definition posix_dirname :: "string \<Rightarrow> string" where
  "posix_dirname p =
     (let d = rev (dropWhile (\<lambda>c. c = CHR ''/'') (dropWhile (\<lambda>c. c \<noteq> CHR ''/'') (rev p)))
      in if d \<noteq> [] then d else if startsWith p ''/'' then ''/'' else ''.'')"

text \<open>A POSIX machine given by the paths that exist, the text of its files, the entries of
  its directories, the output of its commands, and the commands found on its search path.
  No path starts with a tilde and no setting holds a variable, so \<open>untildify\<close> and
  \<open>resolve\<close> return their argument.\<close>

definition posix_sys ::
  "string list \<Rightarrow> (string \<times> string) list \<Rightarrow> (string \<times> string list) list
     \<Rightarrow> ((string \<times> string list) \<times> string) list \<Rightarrow> (string \<times> string) list \<Rightarrow> sys" where
  "posix_sys paths texts dirs outputs found =
     \<lparr>platform = ''linux'', path_sep = ''/'',
      path_join = posix_join, path_basename = posix_basename, path_dirname = posix_dirname,
      existsSync = (\<lambda>p. p \<in> set paths),
      readFileSync = (\<lambda>p. case map_of texts p of
                            None \<Rightarrow> Inl (SystemError ''ENOENT: no such file or directory'')
                          | Some t \<Rightarrow> Inr t),
      readdirSync = (\<lambda>p. case map_of dirs p of
                           None \<Rightarrow> Inl (SystemError ''ENOENT: no such file or directory'')
                         | Some fs \<Rightarrow> Inr fs),
      child_stdout = (\<lambda>e cmd args cwd. map_of outputs (cmd, args)),
      which_sync = (\<lambda>e cmd. map_of found cmd),
      untildify = (\<lambda>p. p),
      systemVariables_resolve = (\<lambda>p. p)\<rparr>"

text \<open>The settings of a workspace at \<open>/ws\<close> before any path is cached, and processes with a
  given environment that have logged and run nothing.\<close>

definition settings_ws :: PythonSettings where
  "settings_ws =
     \<lparr>workspaceRoot = ''/ws'', priv_pythonPath = '''', priv_configPythonPath = '''',
      priv_stdLibs = [], priv_configStdLibs = []\<rparr>"

definition proc_with :: "(string \<times> string) list \<Rightarrow> proc" where
  "proc_with vars = \<lparr>env = map_of vars, console = [], calls = []\<rparr>"

text \<open>A machine with an active virtualenv at \<open>/env\<close> and a conda prefix at \<open>/conda\<close>, both with
  an interpreter.\<close>

definition sys_venv :: sys where
  "sys_venv =
     posix_sys [''/env/pyvenv.cfg'', ''/env/bin/python'', ''/conda/bin/python''] [] [] [] []"

definition proc_venv :: proc where
  "proc_venv = proc_with [(''VIRTUAL_ENV'', ''/env''), (''CONDA_PREFIX'', ''/conda'')]"

text \<open>The same machine after the interpreter of the virtualenv has been removed; the
  workspace has a \<open>Pipfile\<close>, and \<open>python\<close> is on the search path.\<close>

definition sys_broken_venv :: sys where
  "sys_broken_venv =
     posix_sys [''/env/pyvenv.cfg'', ''/conda/bin/python'', ''/ws/Pipfile''] [] []
       [((''pipenv'', [''--py'']), ''/pipenv/bin/python'' @ [CHR 0x0A]),
        ((''/usr/bin/python3'', [''-c'', ''print(1234)'']), ''1234'' @ [CHR 0x0A])]
       [(''python'', ''/usr/bin/python3'')]"

text \<open>A workspace with a \<open>.python-version\<close> file of two lines, and a \<open>poetry.lock\<close>.\<close>

definition sys_pyenv :: sys where
  "sys_pyenv =
     posix_sys [''/ws/.python-version'', ''/ws/poetry.lock'']
       [(''/ws/.python-version'', ''3.10'' @ [CHR 0x0A] @ ''3.9'' @ [CHR 0x0A])] [] [] []"

text \<open>A workspace with a \<open>poetry.lock\<close> whose second environment is the activated one.\<close>

definition poetry_args :: "string list" where
  "poetry_args = [''env'', ''list'', ''--full-path'', ''--no-ansi'']"

definition sys_poetry :: sys where
  "sys_poetry =
     posix_sys [''/ws/poetry.lock'', ''/cache/b-py3.10/bin/python''] [] []
       [((''poetry'', poetry_args),
         ''/cache/a-py3.9'' @ [CHR 0x0A] @ ''/cache/b-py3.10 (Activated)'' @ [CHR 0x0A])] []"

text \<open>A workspace with a \<open>poetry.lock\<close> for which poetry lists no environment, and with a
  virtualenv in its directory \<open>.venv\<close>.\<close>

definition sys_poetry_none :: sys where
  "sys_poetry_none =
     posix_sys [''/ws/poetry.lock'', ''/ws/.venv/pyvenv.cfg'', ''/ws/.venv/bin/python''] []
       [(''/ws'', [''.venv'', ''poetry.lock''])]
       [((''poetry'', poetry_args), '''')] []"

text \<open>A machine where \<open>python\<close> is found on the search path as \<open>/usr/bin/python3\<close>, which
  prints what it is asked to print, and where \<open>/opt/python/python\<close> is an executable file that
  is not an interpreter (\<open>which\<close> returns a path with a separator as it is).\<close>

definition sys_which :: sys where
  "sys_which =
     posix_sys [''/usr/bin/python3'', ''/opt/python/python''] [] []
       [((''/usr/bin/python3'', [''-c'', ''print(1234)'']), ''1234'' @ [CHR 0x0A]),
        ((''/opt/python/python'', [''-c'', ''print(1234)'']), '''')]
       [(''python'', ''/usr/bin/python3''), (''/opt/python/python'', ''/opt/python/python'')]"

section \<open>Properties of the ruff linter\<close>

subsection \<open>Auxiliary facts\<close>

lemma map_throwing_Inr:
  "map_throwing f xs = Inr ys \<Longrightarrow>
   length ys = length xs \<and> (\<forall>i<length xs. f (xs ! i) = Inr (ys ! i))"
proof (induction xs arbitrary: ys)
  case Nil
  then show ?case by simp
next
  case (Cons x xs)
  from Cons.prems obtain y zs where y: "f x = Inr y" and zs: "map_throwing f xs = Inr zs"
    and ys: "ys = y # zs"
    by (auto split: sum.splits)
  from Cons.IH [OF zs] have l: "length zs = length xs"
    and n: "\<forall>i<length xs. f (xs ! i) = Inr (zs ! i)" by simp_all
  show ?case
  proof (intro conjI allI impI)
    show "length ys = length (x # xs)" using l ys by simp
  next
    fix i assume "i < length (x # xs)"
    then show "f ((x # xs) ! i) = Inr (ys ! i)"
      using y n ys by (cases i) simp_all
  qed
qed


lemma map_throwing_first:
  "k < length xs \<Longrightarrow> f (xs ! k) = Inl e \<Longrightarrow> (\<forall>i<k. \<exists>y. f (xs ! i) = Inr y) \<Longrightarrow>
   map_throwing f xs = Inl e"
proof (induction xs arbitrary: k)
  case Nil
  then show ?case by simp
next
  case (Cons x xs)
  show ?case
  proof (cases k)
    case 0
    with Cons.prems show ?thesis by simp
  next
    case (Suc j)
    with Cons.prems have j: "j < length xs" "f (xs ! j) = Inl e" by simp_all
    from Cons.prems Suc have "\<forall>i<j. \<exists>y. f (xs ! i) = Inr y" by auto
    from Cons.IH [OF j this] have r: "map_throwing f xs = Inl e" .
    from Cons.prems Suc obtain y where "f x = Inr y" by force
    with r show ?thesis by simp
  qed
qed

lemma bit_length_lower: "0 < n \<Longrightarrow> 2 ^ (bit_length n - 1) \<le> n"
proof (induction n rule: bit_length.induct)
  case (1 n)
  show ?case
  proof (cases "n div 2 = 0")
    case True
    with "1.prems" show ?thesis
      by (simp add: bit_length.simps [of n] bit_length.simps [of 0])
  next
    case False
    with "1.IH" "1.prems" have ih: "2 ^ (bit_length (n div 2) - 1) \<le> n div 2" by simp
    from False have p: "0 < bit_length (n div 2)"
      by (simp add: bit_length.simps [of "n div 2"])
    have "bit_length n = Suc (bit_length (n div 2))"
      using "1.prems" by (simp add: bit_length.simps [of n])
    then have "(2::nat) ^ (bit_length n - 1) = 2 * 2 ^ (bit_length (n div 2) - 1)"
      using p by (cases "bit_length (n div 2)") simp_all
    also have "\<dots> \<le> 2 * (n div 2)" using ih by simp
    also have "\<dots> \<le> n" by simp
    finally show ?thesis .
  qed
qed

lemma bit_length_upper: "n < 2 ^ bit_length n"
proof (induction n rule: bit_length.induct)
  case (1 n)
  show ?case
  proof (cases "n = 0")
    case True
    then show ?thesis by simp
  next
    case False
    with "1.IH" have ih: "n div 2 < 2 ^ bit_length (n div 2)" by simp
    have "bit_length n = Suc (bit_length (n div 2))"
      using False by (simp add: bit_length.simps [of n])
    moreover have "n < 2 * 2 ^ bit_length (n div 2)" using ih by linarith
    ultimately show ?thesis by simp
  qed
qed

lemma double_round_small: "\<bar>n\<bar> < 2 ^ 53 \<Longrightarrow> double_round n = n"
  by (auto simp: double_round_def Let_def)

lemma double_round_large:
  assumes "2 ^ 53 \<le> \<bar>n\<bar>"
  shows "2 ^ 53 \<le> \<bar>double_round n\<bar>"
proof -
  define a where "a = nat \<bar>n\<bar>"
  define e where "e = bit_length a - 53"
  define q where "q = a div 2 ^ e"
  define q' where "q' = (if 2 ^ (e - 1) < a mod 2 ^ e \<or> (a mod 2 ^ e = 2 ^ (e - 1) \<and> odd q) then Suc q else q)"
  from assms have a: "2 ^ 53 \<le> a" by (simp add: a_def le_nat_iff)
  then have pos: "0 < a" by (metis less_le_trans zero_less_numeral zero_less_power)
  from a bit_length_upper [of a] have "(2::nat) ^ 53 < 2 ^ bit_length a" by linarith
  then have bl: "53 < bit_length a"
    using power_less_imp_less_exp [of "2::nat" 53 "bit_length a"] by simp
  then have be: "bit_length a - 1 = 52 + e" by (simp add: e_def)
  from bit_length_lower [OF pos] be have "(2::nat) ^ 52 * 2 ^ e \<le> a" by (simp add: power_add)
  then have "2 ^ 52 \<le> q"
    unfolding q_def by (metis div_le_mono nonzero_mult_div_cancel_right power_not_zero zero_neq_numeral)
  then have q52: "2 ^ 52 \<le> q'" by (simp add: q'_def)
  from bl have "1 \<le> e" by (simp add: e_def)
  then have "(2::nat) ^ 1 \<le> 2 ^ e" by (rule power_increasing) simp
  then have "(2::nat) \<le> 2 ^ e" by simp
  with q52 have "2 ^ 52 * 2 \<le> q' * 2 ^ e" by (rule mult_le_mono)
  then have big: "(2::nat) ^ 53 \<le> q' * 2 ^ e" by simp
  from a have na: "\<not> a < 2 ^ 53" by simp
  have "double_round n = sgn n * int (q' * 2 ^ e)"
    using na by (simp add: double_round_def Let_def a_def e_def q_def q'_def)
  moreover from assms have "n \<noteq> 0" by auto
  ultimately have "\<bar>double_round n\<bar> = int (q' * 2 ^ e)"
    by (simp add: abs_mult abs_sgn_eq)
  with big show ?thesis
    by (metis of_nat_le_iff of_nat_numeral of_nat_power)
qed

lemma double_round_uinteger:
  assumes "0 \<le> double_round n" and "double_round n \<le> 2147483647"
  shows "double_round n = n"
proof (cases "\<bar>n\<bar> < 2 ^ 53")
  case True
  then show ?thesis by (rule double_round_small)
next
  case False
  then have "2 ^ 53 \<le> \<bar>double_round n\<bar>" by (intro double_round_large) simp
  with assms show ?thesis by simp
qed

lemma is_uinteger_minus:
  "is_uinteger (Value (js_minus x 1)) \<Longrightarrow> \<exists>r. x = Value r \<and> js_minus x 1 = Num (r - 1) \<and> 1 \<le> r"
proof (cases x)
  case Undefined
  assume "is_uinteger (Value (js_minus x 1))"
  with Undefined show ?thesis by simp
next
  case Null
  assume "is_uinteger (Value (js_minus x 1))"
  with Null show ?thesis by (simp add: double_round_small)
next
  case (Value r)
  assume "is_uinteger (Value (js_minus x 1))"
  with Value have b: "0 \<le> double_round (r - 1)" "double_round (r - 1) \<le> 2147483647" by simp_all
  from double_round_uinteger [OF b] b Value show ?thesis by simp
qed

lemma is_uinteger_field:
  "is_uinteger (map_field Num x) \<Longrightarrow> \<exists>c. x = Value c"
  by (cases x) simp_all

lemma fixToWorkspaceEdit_Inr:
  assumes "fixToWorkspaceEdit uri num_str fname (Value f) = Inr fx"
  shows "\<exists>l e r1 c1 r2 c2.
           fix_location f = Value l \<and> row l = Value r1 \<and> column l = Value c1
         \<and> fix_end_location f = Value e \<and> row e = Value r2 \<and> column e = Value c2
         \<and> fx = Some \<lparr>changes =
                  [(uri fname,
                    [\<lparr>range = \<lparr>start = \<lparr>pos_line = r1 - 1, character = c1\<rparr>,
                               end' = \<lparr>pos_line = r2 - 1, character = c2\<rparr>\<rparr>,
                      newText = content f\<rparr>])]\<rparr>"
proof -
  from assms obtain l where l: "fix_location f = Value l"
    by (cases "fix_location f") (simp_all add: fixToWorkspaceEdit_def)
  from assms l obtain e where e: "fix_end_location f = Value e"
    by (cases "fix_end_location f") (simp_all add: fixToWorkspaceEdit_def)
  let ?one = "Value (js_minus (row l) 1)" and ?two = "map_field Num (column l)"
  let ?three = "Value (js_minus (row e) 1)" and ?four = "map_field Num (column e)"
  from assms l e obtain r where r: "Range_create num_str ?one ?two ?three ?four = Inr r"
    and fx: "fx = Some \<lparr>changes = [(uri fname, [TextEdit_replace r (content f)])]\<rparr>"
    by (auto simp: fixToWorkspaceEdit_def split: sum.splits)
  from r have u: "is_uinteger ?one" "is_uinteger ?two" "is_uinteger ?three" "is_uinteger ?four"
    by (simp_all add: Range_create_def split: if_splits)
  from is_uinteger_minus [OF u(1)] obtain r1 where r1: "row l = Value r1"
    "js_minus (row l) 1 = Num (r1 - 1)" by blast
  from is_uinteger_minus [OF u(3)] obtain r2 where r2: "row e = Value r2"
    "js_minus (row e) 1 = Num (r2 - 1)" by blast
  from is_uinteger_field [OF u(2)] obtain c1 where c1: "column l = Value c1" by blast
  from is_uinteger_field [OF u(4)] obtain c2 where c2: "column e = Value c2" by blast
  from r u r1 r2 c1 c2
  have "r = \<lparr>start = \<lparr>pos_line = r1 - 1, character = c1\<rparr>,
              end' = \<lparr>pos_line = r2 - 1, character = c2\<rparr>\<rparr>"
    by (simp add: Range_create_def)
  with fx l e r1 c1 r2 c2 show ?thesis
    by (simp add: TextEdit_replace_def)
qed



lemma ruff_message_Inr:
  assumes "ruff_message uri num_str info_id (Value msg) = Inr m"
  shows "\<exists>loc eloc.
           location msg = Value loc \<and> end_location msg = Value eloc
         \<and> fixToWorkspaceEdit uri num_str (filename msg) (fix' msg) = Inr (msg_fix m)
         \<and> line m = row loc \<and> msg_column m = js_minus (column loc) 1
         \<and> endLine m = row eloc \<and> endColumn m = column eloc
         \<and> tags m = (if code msg = Value ''F401'' \<or> code msg = Value ''F841''
                      then [Unnecessary] else [])"
proof -
  from assms obtain loc where loc: "location msg = Value loc"
    by (cases "location msg") (simp_all add: ruff_message_def)
  from assms loc obtain eloc where eloc: "end_location msg = Value eloc"
    by (cases "end_location msg") (simp_all add: ruff_message_def)
  from assms loc eloc show ?thesis
    by (auto simp: ruff_message_def COLUMN_OFF_SET_def split: sum.splits)
qed


subsection \<open>The claims\<close>

lemma parse_try_array:
  "json_parse output = Inr (JArray entries) \<Longrightarrow>
   parse_try json_parse uri num_str info_id output
     = map_throwing (ruff_message uri num_str info_id) entries"
  by (simp add: parse_try_def)

lemma parseMessages_returned:
  "parse_try json_parse uri num_str info_id output = Inr msgs \<Longrightarrow>
   parseMessages json_parse uri num_str info_id ch output = (msgs, ch)"
  by (simp add: parseMessages_def)

lemma json_parse_example_ruff_text:
  "json_parse_example ruff_text = Inr (JArray [Value entry_F401, Value entry_E501])"
  by (simp add: json_parse_example_def)

lemma json_parse_example_row0:
  "json_parse_example ruff_text_row0 = Inr (JArray [Value entry_E501, Value entry_F841_row0])"
  by (simp add: json_parse_example_def ruff_text_def ruff_text_row0_def)



text \<open>
  Claim C2, as amended. Whenever the \<open>try\<close> block of \<open>parseMessages\<close> throws an error \<open>e\<close>,
  \<open>parseMessages\<close> returns the empty list, no exception leaves it, and it appends two lines
  to the output channel: the line \<open>Linting with <id> failed:\<close> and then the message of
  \<open>e\<close>. The block throws when the input is not valid JSON (the \<open>SyntaxError\<close> of
  \<open>JSON.parse\<close>), when the parsed value is not an array (a \<open>TypeError\<close>), and when the
  callback throws on an entry of the array: the error is that of the first such entry.
\<close>

theorem parseMessages_fails_soft:
  "(parse_try json_parse uri num_str info_id output = Inl e \<longrightarrow>
      parseMessages json_parse uri num_str info_id ch output
        = ([], ch @ [''Linting with '' @ info_id @ '' failed:'', error_message e]))
   \<and> (json_parse output = Inl e \<longrightarrow>
        parse_try json_parse uri num_str info_id output = Inl e)
   \<and> (json_parse output = Inr JNull \<longrightarrow>
        parse_try json_parse uri num_str info_id output
          = Inl (TypeError ''Cannot read properties of null (reading 'map')''))
   \<and> (json_parse output = Inr JOther \<longrightarrow>
        parse_try json_parse uri num_str info_id output
          = Inl (TypeError ''JSON.parse(...).map is not a function''))
   \<and> (\<forall>entries k.
          json_parse output = Inr (JArray entries) \<and> k < length entries
        \<and> ruff_message uri num_str info_id (entries ! k) = Inl e
        \<and> (\<forall>i<k. \<exists>m. ruff_message uri num_str info_id (entries ! i) = Inr m)
        \<longrightarrow> parse_try json_parse uri num_str info_id output = Inl e)"
proof (intro conjI impI allI)
  assume "parse_try json_parse uri num_str info_id output = Inl e"
  then show "parseMessages json_parse uri num_str info_id ch output
        = ([], ch @ [''Linting with '' @ info_id @ '' failed:'', error_message e])"
    by (cases e) (simp_all add: parseMessages_def)
next
  assume "json_parse output = Inl e"
  then show "parse_try json_parse uri num_str info_id output = Inl e"
    by (simp add: parse_try_def)
next
  assume "json_parse output = Inr JNull"
  then show "parse_try json_parse uri num_str info_id output
          = Inl (TypeError ''Cannot read properties of null (reading 'map')'')"
    by (simp add: parse_try_def)
next
  assume "json_parse output = Inr JOther"
  then show "parse_try json_parse uri num_str info_id output
          = Inl (TypeError ''JSON.parse(...).map is not a function'')"
    by (simp add: parse_try_def)
next
  fix entries k
  assume a: "json_parse output = Inr (JArray entries) \<and> k < length entries
        \<and> ruff_message uri num_str info_id (entries ! k) = Inl e
        \<and> (\<forall>i<k. \<exists>m. ruff_message uri num_str info_id (entries ! i) = Inr m)"
  then have "map_throwing (ruff_message uri num_str info_id) entries = Inl e"
    by (intro map_throwing_first [of k]) simp_all
  with a show "parse_try json_parse uri num_str info_id output = Inl e"
    by (simp add: parse_try_array)
qed

lemma parse_try_examples:
  "parse_try json_parse_example uri_example number_text ''ruff'' ''not json''
     = Inl (SyntaxError ''Unexpected token o in JSON at position 1'')"
  "parse_try json_parse_example uri_example number_text ''ruff'' ''[{}]''
     = Inl (TypeError (''Cannot read properties of undefined (reading '' @ [CHR 0x27] @ ''row''
              @ [CHR 0x27] @ '')''))"
  "parse_try json_parse_example uri_example number_text ''ruff'' ruff_text_row0
     = Inl (PlainError ''Range#create called with invalid arguments[-1, 0, 3, 0]'')"
  by (simp_all add: parse_try_def json_parse_example_def ruff_text_def ruff_text_row0_def
      ruff_message_def fixToWorkspaceEdit_def Range_create_def entry_E501_def entry_F841_row0_def
      entry_empty_def double_round_def number_text_def digits.simps digit_def)

theorem parseMessages_fails_soft_witness:
  "parseMessages json_parse_example uri_example number_text ''ruff'' [] ''not json''
     = ([], [''Linting with ruff failed:'', ''Unexpected token o in JSON at position 1''])
   \<and> parseMessages json_parse_example uri_example number_text ''ruff'' [] ''[{}]''
     = ([], [''Linting with ruff failed:'',
             ''Cannot read properties of undefined (reading '' @ [CHR 0x27] @ ''row''
               @ [CHR 0x27] @ '')''])
   \<and> parseMessages json_parse_example uri_example number_text ''ruff'' [] ruff_text_row0
     = ([], [''Linting with ruff failed:'',
             ''Range#create called with invalid arguments[-1, 0, 3, 0]''])"
proof -
  from parseMessages_fails_soft
         [of json_parse_example uri_example number_text "''ruff''" "''not json''"
             "SyntaxError ''Unexpected token o in JSON at position 1''" "[]"]
       parse_try_examples(1)
  have a: "parseMessages json_parse_example uri_example number_text ''ruff'' [] ''not json''
     = ([], [''Linting with ruff failed:'', ''Unexpected token o in JSON at position 1''])"
    by simp
  from parseMessages_fails_soft
         [of json_parse_example uri_example number_text "''ruff''" "''[{}]''"
             "TypeError (''Cannot read properties of undefined (reading '' @ [CHR 0x27] @ ''row''
                @ [CHR 0x27] @ '')'')" "[]"]
       parse_try_examples(2)
  have b: "parseMessages json_parse_example uri_example number_text ''ruff'' [] ''[{}]''
     = ([], [''Linting with ruff failed:'',
             ''Cannot read properties of undefined (reading '' @ [CHR 0x27] @ ''row''
               @ [CHR 0x27] @ '')''])"
    by simp
  from parseMessages_fails_soft
         [of json_parse_example uri_example number_text "''ruff''" ruff_text_row0
             "PlainError ''Range#create called with invalid arguments[-1, 0, 3, 0]''" "[]"]
       parse_try_examples(3)
  have c: "parseMessages json_parse_example uri_example number_text ''ruff'' [] ruff_text_row0
     = ([], [''Linting with ruff failed:'',
             ''Range#create called with invalid arguments[-1, 0, 3, 0]''])"
    by simp
  from a b c show ?thesis by simp
qed

text \<open>
  Claim C2 as stated says that a single line is appended. On the text \<open>not json\<close> the
  channel, empty before the call, does not hold exactly one line after it.
\<close>

theorem parseMessages_single_line_counterexample:
  "\<not> (\<exists>l. snd (parseMessages json_parse_example uri_example number_text ''ruff'' [] ''not json'')
            = [] @ [l])"
proof -
  have "snd (parseMessages json_parse_example uri_example number_text ''ruff'' [] ''not json'')
     = [''Linting with ruff failed:'', ''Unexpected token o in JSON at position 1'']"
    by (simp add: parseMessages_def parse_try_examples)
  then show ?thesis by simp
qed

text \<open>
  Claim C3. When \<open>parseMessages\<close> returns the messages of a parsed array (its \<open>try\<close> block has
  not thrown), there is one message for each entry, and for the entry \<open>i\<close>: if the entry
  has no \<open>fix\<close> (or a \<open>null\<close> one), the fix of its message is \<open>null\<close>; if it has one, the
  fix of its message is a workspace edit whose changes hold one document, the URI of the
  entry's file name, with exactly one text edit, which replaces the range from (row of
  \<open>fix.location\<close> minus one, column of \<open>fix.location\<close>) to (row of \<open>fix.end_location\<close> minus
  one, column of \<open>fix.end_location\<close>) by \<open>fix.content\<close>.
\<close>

theorem parseMessages_fix:
  assumes "json_parse output = Inr (JArray entries)"
    and "parse_try json_parse uri num_str info_id output = Inr msgs"
    and "i < length entries" and "entries ! i = Value msg"
  shows "parseMessages json_parse uri num_str info_id ch output = (msgs, ch)
     \<and> length msgs = length entries
     \<and> (fix' msg = Undefined \<or> fix' msg = Null \<longrightarrow> msg_fix (msgs ! i) = None)
     \<and> (\<forall>f. fix' msg = Value f \<longrightarrow>
           (\<exists>l e r1 c1 r2 c2.
              fix_location f = Value l \<and> row l = Value r1 \<and> column l = Value c1
            \<and> fix_end_location f = Value e \<and> row e = Value r2 \<and> column e = Value c2
            \<and> msg_fix (msgs ! i)
                = Some \<lparr>changes =
                    [(uri (filename msg),
                      [\<lparr>range = \<lparr>start = \<lparr>pos_line = r1 - 1, character = c1\<rparr>,
                                 end' = \<lparr>pos_line = r2 - 1, character = c2\<rparr>\<rparr>,
                        newText = content f\<rparr>])]\<rparr>))"
proof -
  from assms(1,2) have m: "map_throwing (ruff_message uri num_str info_id) entries = Inr msgs"
    by (simp add: parse_try_array)
  from map_throwing_Inr [OF m] assms(3,4)
  have l: "length msgs = length entries"
    and r: "ruff_message uri num_str info_id (Value msg) = Inr (msgs ! i)" by auto
  from ruff_message_Inr [OF r]
  have fx: "fixToWorkspaceEdit uri num_str (filename msg) (fix' msg) = Inr (msg_fix (msgs ! i))"
    by blast
  have a: "fix' msg = Undefined \<or> fix' msg = Null \<longrightarrow> msg_fix (msgs ! i) = None"
    using fx by (auto simp: fixToWorkspaceEdit_def)
  have b: "\<exists>l e r1 c1 r2 c2.
              fix_location f = Value l \<and> row l = Value r1 \<and> column l = Value c1
            \<and> fix_end_location f = Value e \<and> row e = Value r2 \<and> column e = Value c2
            \<and> msg_fix (msgs ! i)
                = Some \<lparr>changes =
                    [(uri (filename msg),
                      [\<lparr>range = \<lparr>start = \<lparr>pos_line = r1 - 1, character = c1\<rparr>,
                                 end' = \<lparr>pos_line = r2 - 1, character = c2\<rparr>\<rparr>,
                        newText = content f\<rparr>])]\<rparr>"
    if "fix' msg = Value f" for f
    using fixToWorkspaceEdit_Inr [of uri num_str "filename msg" f "msg_fix (msgs ! i)"] fx that
    by simp
  from parseMessages_returned [OF assms(2)] l a b show ?thesis by blast
qed

text \<open>
  Claim C9. When \<open>parseMessages\<close> returns the messages of a parsed array (its \<open>try\<close> block has
  not thrown), there is one message for each entry, and for the entry \<open>i\<close> the tags of its
  message contain \<open>Unnecessary\<close> if and only if the code of the entry is \<open>F401\<close> or
  \<open>F841\<close>; the tags are then the list of that one tag, and they are the empty list for
  every other code.
\<close>

theorem parseMessages_tags:
  assumes "json_parse output = Inr (JArray entries)"
    and "parse_try json_parse uri num_str info_id output = Inr msgs"
    and "i < length entries" and "entries ! i = Value msg"
  shows "parseMessages json_parse uri num_str info_id ch output = (msgs, ch)
     \<and> length msgs = length entries
     \<and> (Unnecessary \<in> set (tags (msgs ! i))
            \<longleftrightarrow> code msg = Value ''F401'' \<or> code msg = Value ''F841'')
     \<and> tags (msgs ! i)
          = (if code msg = Value ''F401'' \<or> code msg = Value ''F841'' then [Unnecessary] else [])"
proof -
  from assms(1,2) have m: "map_throwing (ruff_message uri num_str info_id) entries = Inr msgs"
    by (simp add: parse_try_array)
  from map_throwing_Inr [OF m] assms(3,4)
  have l: "length msgs = length entries"
    and r: "ruff_message uri num_str info_id (Value msg) = Inr (msgs ! i)" by auto
  from ruff_message_Inr [OF r]
  have t: "tags (msgs ! i)
          = (if code msg = Value ''F401'' \<or> code msg = Value ''F841'' then [Unnecessary] else [])"
    by blast
  from parseMessages_returned [OF assms(2)] l t show ?thesis by simp
qed

lemma parse_try_example_returned:
  "parse_try json_parse_example uri_example number_text ''ruff'' ruff_text
     = Inr (fst (parseMessages json_parse_example uri_example number_text ''ruff'' [] ruff_text))"
  by (simp add: parseMessages_def parse_try_def json_parse_example_ruff_text ruff_message_def
        fixToWorkspaceEdit_def Range_create_def entry_F401_def entry_E501_def double_round_def)

theorem parseMessages_fix_witness:
  "json_parse_example ruff_text = Inr (JArray [Value entry_F401, Value entry_E501])
   \<and> fix' entry_E501 = Undefined
   \<and> msg_fix (fst (parseMessages json_parse_example uri_example number_text ''ruff'' [] ruff_text) ! 0)
     = Some \<lparr>changes =
         [(''file:///path/to/bug.py'',
           [\<lparr>range = \<lparr>start = \<lparr>pos_line = 2, character = 0\<rparr>,
                      end' = \<lparr>pos_line = 3, character = 0\<rparr>\<rparr>,
             newText = Value ''''\<rparr>])]\<rparr>
   \<and> msg_fix (fst (parseMessages json_parse_example uri_example number_text ''ruff'' [] ruff_text) ! 1)
       = None"
proof -
  let ?ms = "fst (parseMessages json_parse_example uri_example number_text ''ruff'' [] ruff_text)"
  let ?f = "\<lparr>content = Value '''', fix_location = Value \<lparr>row = Value 3, column = Value 0\<rparr>,
             fix_end_location = Value \<lparr>row = Value 4, column = Value 0\<rparr>\<rparr>"
  have h: "json_parse_example ruff_text = Inr (JArray [Value entry_F401, Value entry_E501])"
    by (rule json_parse_example_ruff_text)
  have p: "parse_try json_parse_example uri_example number_text ''ruff'' ruff_text = Inr ?ms"
    by (rule parse_try_example_returned)
  have l0: "0 < length [Value entry_F401, Value entry_E501]"
    and l1: "1 < length [Value entry_F401, Value entry_E501]" by simp_all
  have e0: "[Value entry_F401, Value entry_E501] ! 0 = Value entry_F401"
    and e1: "[Value entry_F401, Value entry_E501] ! 1 = Value entry_E501" by simp_all
  have f0: "fix' entry_F401 = Value ?f" by (simp add: entry_F401_def)
  have f1: "fix' entry_E501 = Undefined" by (simp add: entry_E501_def)
  from parseMessages_fix
         [of json_parse_example ruff_text "[Value entry_F401, Value entry_E501]" uri_example
             number_text "''ruff''" ?ms 0 entry_F401 "[]", OF h p l0 e0] f0
  obtain l e r1 c1 r2 c2 where
    "fix_location ?f = Value l" "row l = Value r1" "column l = Value c1"
    "fix_end_location ?f = Value e" "row e = Value r2" "column e = Value c2"
    "msg_fix (?ms ! 0)
       = Some \<lparr>changes =
           [(uri_example (filename entry_F401),
             [\<lparr>range = \<lparr>start = \<lparr>pos_line = r1 - 1, character = c1\<rparr>,
                        end' = \<lparr>pos_line = r2 - 1, character = c2\<rparr>\<rparr>,
               newText = content ?f\<rparr>])]\<rparr>"
    by blast
  then have a: "msg_fix (?ms ! 0)
     = Some \<lparr>changes =
         [(''file:///path/to/bug.py'',
           [\<lparr>range = \<lparr>start = \<lparr>pos_line = 2, character = 0\<rparr>,
                      end' = \<lparr>pos_line = 3, character = 0\<rparr>\<rparr>,
             newText = Value ''''\<rparr>])]\<rparr>"
    by (auto simp: entry_F401_def uri_example_def)
  from parseMessages_fix
         [of json_parse_example ruff_text "[Value entry_F401, Value entry_E501]" uri_example
             number_text "''ruff''" ?ms 1 entry_E501 "[]", OF h p l1 e1] f1
  have b: "msg_fix (?ms ! 1) = None" by blast
  from h f1 a b show ?thesis by simp
qed

theorem parseMessages_tags_witness:
  "json_parse_example ruff_text = Inr (JArray [Value entry_F401, Value entry_E501])
   \<and> code entry_F401 = Value ''F401'' \<and> code entry_E501 = Value ''E501''
   \<and> tags (fst (parseMessages json_parse_example uri_example number_text ''ruff'' [] ruff_text) ! 0)
     = [Unnecessary]
   \<and> tags (fst (parseMessages json_parse_example uri_example number_text ''ruff'' [] ruff_text) ! 1)
     = []"
proof -
  let ?ms = "fst (parseMessages json_parse_example uri_example number_text ''ruff'' [] ruff_text)"
  have h: "json_parse_example ruff_text = Inr (JArray [Value entry_F401, Value entry_E501])"
    by (rule json_parse_example_ruff_text)
  have p: "parse_try json_parse_example uri_example number_text ''ruff'' ruff_text = Inr ?ms"
    by (rule parse_try_example_returned)
  have l0: "0 < length [Value entry_F401, Value entry_E501]"
    and l1: "1 < length [Value entry_F401, Value entry_E501]" by simp_all
  have e0: "[Value entry_F401, Value entry_E501] ! 0 = Value entry_F401"
    and e1: "[Value entry_F401, Value entry_E501] ! 1 = Value entry_E501" by simp_all
  have c: "code entry_F401 = Value ''F401''" "code entry_E501 = Value ''E501''"
    by (simp_all add: entry_F401_def entry_E501_def)
  from parseMessages_tags
         [of json_parse_example ruff_text "[Value entry_F401, Value entry_E501]" uri_example
             number_text "''ruff''" ?ms 0 entry_F401 "[]", OF h p l0 e0] c
  have a: "tags (?ms ! 0) = [Unnecessary]" by simp
  from parseMessages_tags
         [of json_parse_example ruff_text "[Value entry_F401, Value entry_E501]" uri_example
             number_text "''ruff''" ?ms 1 entry_E501 "[]", OF h p l1 e1] c
  have b: "tags (?ms ! 1) = []" by simp
  from h c a b show ?thesis by simp
qed


section \<open>Properties of the interpreter settings\<close>

subsection \<open>Auxiliary facts\<close>

lemma js_split_not_empty: "js_split d s \<noteq> []"
  by (induction s) (auto split: list.splits)

lemma first_item_js_split: "first_item (js_split d s) = takeWhile (\<lambda>c. c \<noteq> d) s"
proof (induction s)
  case Nil
  then show ?case by (simp add: first_item_def)
next
  case (Cons c cs)
  then show ?case
    using js_split_not_empty [of d cs]
    by (auto simp: first_item_def split: list.splits)
qed

lemma poetry_info_choice:
  "poetry_info lines info = (if lines = [] then info else poetry_choice lines)"
proof (induction lines arbitrary: info)
  case Nil
  then show ?case by simp
next
  case (Cons item items)
  then show ?case by (simp add: poetry_choice_def split: option.split)
qed

lemma calls_spawnSync:
  "snd (spawnSync s cmd args cwd pr) = pr\<lparr>calls := calls pr @ [Spawn cmd args cwd]\<rparr>"
  "fst (spawnSync s cmd args cwd pr) = child_stdout s (env pr) cmd args cwd"
  by (simp_all add: spawnSync_def)

lemma isValidPythonPath_proc:
  "snd (isValidPythonPath s p pr) = pr\<lparr>calls := calls pr @ [Spawn p [''-c'', ''print(1234)''] None]\<rparr>"
  by (simp add: isValidPythonPath_def spawnSync_def split: option.split)

lemma getPythonExecutable_eq:
  "getPythonExecutable s v pr =
     (fst (lookup s (untildify s v) pr),
      (snd (lookup s (untildify s v) pr))
        \<lparr>calls := calls (snd (lookup s (untildify s v) pr))
                    @ [Spawn (fst (lookup s (untildify s v) pr)) [''-c'', ''print(1234)''] None]\<rparr>)"
proof -
  obtain p pr1 where l: "lookup s (untildify s v) pr = (p, pr1)"
    by (cases "lookup s (untildify s v) pr")
  obtain b pr2 where i: "isValidPythonPath s p pr1 = (b, pr2)"
    by (cases "isValidPythonPath s p pr1")
  from isValidPythonPath_proc [of s p pr1] i
  have "pr2 = pr1\<lparr>calls := calls pr1 @ [Spawn p [''-c'', ''print(1234)''] None]\<rparr>"
    by simp
  then show ?thesis
    by (simp add: getPythonExecutable_def l i)
qed

lemma getStdLibs_calls:
  "\<exists>cs. cs \<noteq> [] \<and> calls (snd (getStdLibs s p pr)) = calls pr @ cs"
  by (simp add: getStdLibs_def spawnSync_def split: option.split)

lemma lookup_calls:
  "\<exists>cs. calls (snd (lookup s p pr)) = calls pr @ cs"
  by (simp add: lookup_def)

subsection \<open>The probes\<close>

text \<open>
  Claim C4. If \<open>VIRTUAL_ENV\<close> is set (to a value that is not empty, which is what the code
  tests), the file \<open>pyvenv.cfg\<close> under it exists, and the interpreter under it exists
  (\<open>Scripts/python.exe\<close> on Windows, \<open>bin/python\<close> elsewhere), then \<open>resolvePythonFromVENV\<close>
  returns the path of that interpreter, and changes nothing. Nothing is assumed of
  \<open>CONDA_PREFIX\<close>: the result is the same when it is set.
\<close>

theorem resolvePythonFromVENV_virtualenv_first:
  assumes "env pr ''VIRTUAL_ENV'' = Some venv" and "venv \<noteq> []"
    and "existsSync s (path_join s [venv, ''pyvenv.cfg''])"
    and "existsSync s (if platform s = ''win32'' then path_join s [venv, ''Scripts'', ''python.exe'']
                       else path_join s [venv, ''bin'', ''python''])"
  shows "resolvePythonFromVENV s st pr =
           (Some (if platform s = ''win32'' then path_join s [venv, ''Scripts'', ''python.exe'']
                  else path_join s [venv, ''bin'', ''python'']), pr)"
  using assms
  by (simp add: resolvePythonFromVENV_def resolve_try_def env_value_def pythonBinFromPath_def
        split: if_splits)

theorem resolvePythonFromVENV_virtualenv_first_witness:
  "env proc_venv ''VIRTUAL_ENV'' = Some ''/env''
   \<and> env proc_venv ''CONDA_PREFIX'' = Some ''/conda''
   \<and> existsSync sys_venv ''/env/pyvenv.cfg''
   \<and> existsSync sys_venv ''/env/bin/python''
   \<and> existsSync sys_venv ''/conda/bin/python''
   \<and> resolvePythonFromVENV sys_venv settings_ws proc_venv = (Some ''/env/bin/python'', proc_venv)"
proof -
  have e: "env proc_venv ''VIRTUAL_ENV'' = Some ''/env''"
    and c: "env proc_venv ''CONDA_PREFIX'' = Some ''/conda''"
    by (simp_all add: proc_venv_def proc_with_def)
  have n: "''/env'' \<noteq> []" by simp
  have j: "path_join sys_venv [''/env'', ''pyvenv.cfg''] = ''/env/pyvenv.cfg''"
    "path_join sys_venv [''/env'', ''bin'', ''python''] = ''/env/bin/python''"
    "platform sys_venv \<noteq> ''win32''"
    by (simp_all add: sys_venv_def posix_sys_def posix_join_def)
  have x: "existsSync sys_venv ''/env/pyvenv.cfg''" "existsSync sys_venv ''/env/bin/python''"
    "existsSync sys_venv ''/conda/bin/python''"
    by (simp_all add: sys_venv_def posix_sys_def)
  have x1: "existsSync sys_venv (path_join sys_venv [''/env'', ''pyvenv.cfg''])"
    using x j by simp
  have x2: "existsSync sys_venv
     (if platform sys_venv = ''win32'' then path_join sys_venv [''/env'', ''Scripts'', ''python.exe'']
      else path_join sys_venv [''/env'', ''bin'', ''python''])"
    using x j by simp
  from resolvePythonFromVENV_virtualenv_first
         [of proc_venv "''/env''" sys_venv settings_ws, OF e n x1 x2]
  have "resolvePythonFromVENV sys_venv settings_ws proc_venv = (Some ''/env/bin/python'', proc_venv)"
    using j by simp
  with e c x show ?thesis by simp
qed

text \<open>
  Claim C10. If \<open>VIRTUAL_ENV\<close> is set (to a value that is not empty), the file \<open>pyvenv.cfg\<close>
  under it exists, and the interpreter under it does not exist, then \<open>resolvePythonFromVENV\<close>
  returns \<open>undefined\<close> at once: the process is as before (no later probe has set a
  variable, run a command or logged an error), whatever the later probes would find. Then
  \<open>update\<close> gives the configured path to the setter of \<open>pythonPath\<close>.
\<close>

theorem resolvePythonFromVENV_virtualenv_without_interpreter:
  assumes "env pr ''VIRTUAL_ENV'' = Some venv" and "venv \<noteq> []"
    and "existsSync s (path_join s [venv, ''pyvenv.cfg''])"
    and "\<not> existsSync s (if platform s = ''win32''
                          then path_join s [venv, ''Scripts'', ''python.exe'']
                          else path_join s [venv, ''bin'', ''python''])"
  shows "resolvePythonFromVENV s st pr = (None, pr)
     \<and> update_paths s configured (st, pr) =
         set_configPythonPath s (systemVariables_resolve s configured)
           (set_pythonPath s (systemVariables_resolve s configured) (st, pr))"
proof -
  from assms have r: "resolvePythonFromVENV s st pr = (None, pr)"
    by (simp add: resolvePythonFromVENV_def resolve_try_def env_value_def pythonBinFromPath_def
          split: if_splits)
  then show ?thesis
    by (simp add: update_paths_def chosen_path_def)
qed

theorem resolvePythonFromVENV_virtualenv_without_interpreter_witness:
  "env proc_venv ''VIRTUAL_ENV'' = Some ''/env''
   \<and> existsSync sys_broken_venv ''/env/pyvenv.cfg''
   \<and> \<not> existsSync sys_broken_venv ''/env/bin/python''
   \<and> pythonBinFromPath sys_broken_venv ''/conda'' = Some ''/conda/bin/python''
   \<and> existsSync sys_broken_venv ''/ws/Pipfile''
   \<and> resolvePythonFromVENV sys_broken_venv settings_ws proc_venv = (None, proc_venv)
   \<and> priv_pythonPath (fst (update_paths sys_broken_venv ''python'' (settings_ws, proc_venv)))
       = ''/usr/bin/python3''"
proof -
  have e: "env proc_venv ''VIRTUAL_ENV'' = Some ''/env''"
    by (simp add: proc_venv_def proc_with_def)
  have n: "''/env'' \<noteq> []" by simp
  have j: "path_join sys_broken_venv [''/env'', ''pyvenv.cfg''] = ''/env/pyvenv.cfg''"
    "path_join sys_broken_venv [''/env'', ''bin'', ''python''] = ''/env/bin/python''"
    "platform sys_broken_venv \<noteq> ''win32''"
    by (simp_all add: sys_broken_venv_def posix_sys_def posix_join_def)
  have x: "existsSync sys_broken_venv ''/env/pyvenv.cfg''"
    "\<not> existsSync sys_broken_venv ''/env/bin/python''"
    "existsSync sys_broken_venv ''/ws/Pipfile''"
    by (simp_all add: sys_broken_venv_def posix_sys_def)
  have cb: "pythonBinFromPath sys_broken_venv ''/conda'' = Some ''/conda/bin/python''"
    by (simp add: pythonBinFromPath_def sys_broken_venv_def posix_sys_def posix_join_def)
  have x1: "existsSync sys_broken_venv (path_join sys_broken_venv [''/env'', ''pyvenv.cfg''])"
    using x j by simp
  have x2: "\<not> existsSync sys_broken_venv
     (if platform sys_broken_venv = ''win32''
      then path_join sys_broken_venv [''/env'', ''Scripts'', ''python.exe'']
      else path_join sys_broken_venv [''/env'', ''bin'', ''python''])"
    using x j by simp
  note t = resolvePythonFromVENV_virtualenv_without_interpreter
         [of proc_venv "''/env''" sys_broken_venv settings_ws "''python''", OF e n x1 x2]
  have sp: "priv_pythonPath (fst (set_configPythonPath sys_broken_venv ''python''
              (set_pythonPath sys_broken_venv ''python'' (settings_ws, proc_venv))))
            = ''/usr/bin/python3''"
    by (simp add: set_configPythonPath_def set_pythonPath_def settings_ws_def
          getPythonExecutable_eq lookup_def only_python_def sys_broken_venv_def posix_sys_def
          proc_venv_def proc_with_def split: prod.split)
  have r: "systemVariables_resolve sys_broken_venv ''python'' = ''python''"
    by (simp add: sys_broken_venv_def posix_sys_def)
  from t sp r e x cb show ?thesis by simp
qed

text \<open>
  Claim C6, as amended. When the virtualenv probe and the conda probe do not match and
  \<open>.python-version\<close> exists in the workspace root, the probe returns no interpreter path and
  runs no command, and \<open>update\<close> gives the configured path to the setter of \<open>pythonPath\<close>:
  no later probe is consulted. If \<open>PYENV_VERSION\<close> is already set (and not empty), the process
  is left as it is. If it is not, the file is read: \<open>PYENV_VERSION\<close> becomes the trimmed
  text of the file up to its first line feed, or, when reading the file throws, the error
  is logged and the environment is left as it is.
\<close>

theorem resolvePythonFromVENV_python_version:
  assumes "\<not> (env_value pr ''VIRTUAL_ENV'' \<noteq> []
              \<and> existsSync s (path_join s [env_value pr ''VIRTUAL_ENV'', ''pyvenv.cfg'']))"
    and "env_value pr ''CONDA_PREFIX'' = []"
    and "existsSync s (path_join s [workspaceRoot st, ''.python-version''])"
  shows "fst (resolvePythonFromVENV s st pr) = None
     \<and> calls (snd (resolvePythonFromVENV s st pr)) = calls pr
     \<and> (env_value pr ''PYENV_VERSION'' \<noteq> [] \<longrightarrow> snd (resolvePythonFromVENV s st pr) = pr)
     \<and> (env_value pr ''PYENV_VERSION'' = [] \<longrightarrow>
          (\<forall>txt. readFileSync s (path_join s [workspaceRoot st, ''.python-version'']) = Inr txt \<longrightarrow>
             snd (resolvePythonFromVENV s st pr)
               = pr\<lparr>env := (env pr)(''PYENV_VERSION'' \<mapsto>
                                  takeWhile (\<lambda>c. c \<noteq> CHR 0x0A) (js_trim txt))\<rparr>)
        \<and> (\<forall>e. readFileSync s (path_join s [workspaceRoot st, ''.python-version'']) = Inl e \<longrightarrow>
             snd (resolvePythonFromVENV s st pr) = pr\<lparr>console := console pr @ [e]\<rparr>))
     \<and> update_paths s configured (st, pr) =
         set_configPythonPath s (systemVariables_resolve s configured)
           (set_pythonPath s (systemVariables_resolve s configured)
              (st, snd (resolvePythonFromVENV s st pr)))"
proof -
  have r: "resolve_try s (workspaceRoot st) pr =
     (if env_value pr ''PYENV_VERSION'' = []
      then (case readFileSync s (path_join s [workspaceRoot st, ''.python-version'']) of
              Inl e \<Rightarrow> (Inl e, pr)
            | Inr txt \<Rightarrow>
                (Inr None,
                 pr\<lparr>env := (env pr)(''PYENV_VERSION'' \<mapsto>
                                   takeWhile (\<lambda>c. c \<noteq> CHR 0x0A) (js_trim txt))\<rparr>))
      else (Inr None, pr))"
    using assms by (auto simp: resolve_try_def first_item_js_split split: sum.split)
  have f: "fst (resolvePythonFromVENV s st pr) = None"
    by (simp add: resolvePythonFromVENV_def r split: sum.split)
  have c: "calls (snd (resolvePythonFromVENV s st pr)) = calls pr"
    by (simp add: resolvePythonFromVENV_def r split: sum.split)
  have a: "env_value pr ''PYENV_VERSION'' \<noteq> [] \<longrightarrow> snd (resolvePythonFromVENV s st pr) = pr"
    by (simp add: resolvePythonFromVENV_def r)
  have b: "env_value pr ''PYENV_VERSION'' = [] \<longrightarrow>
          (\<forall>txt. readFileSync s (path_join s [workspaceRoot st, ''.python-version'']) = Inr txt \<longrightarrow>
             snd (resolvePythonFromVENV s st pr)
               = pr\<lparr>env := (env pr)(''PYENV_VERSION'' \<mapsto>
                                  takeWhile (\<lambda>c. c \<noteq> CHR 0x0A) (js_trim txt))\<rparr>)
        \<and> (\<forall>e. readFileSync s (path_join s [workspaceRoot st, ''.python-version'']) = Inl e \<longrightarrow>
             snd (resolvePythonFromVENV s st pr) = pr\<lparr>console := console pr @ [e]\<rparr>)"
    by (simp add: resolvePythonFromVENV_def r)
  have u: "update_paths s configured (st, pr) =
         set_configPythonPath s (systemVariables_resolve s configured)
           (set_pythonPath s (systemVariables_resolve s configured)
              (st, snd (resolvePythonFromVENV s st pr)))"
    using f by (cases "resolvePythonFromVENV s st pr") (simp add: update_paths_def chosen_path_def)
  from f c a b u show ?thesis by blast
qed

lemma sys_pyenv_facts:
  "path_join sys_pyenv [''/ws'', ''.python-version''] = ''/ws/.python-version''"
  "existsSync sys_pyenv ''/ws/.python-version''"
  "readFileSync sys_pyenv ''/ws/.python-version''
     = Inr (''3.10'' @ [CHR 0x0A] @ ''3.9'' @ [CHR 0x0A])"
  "workspaceRoot settings_ws = ''/ws''"
  by (simp_all add: sys_pyenv_def posix_sys_def posix_join_def settings_ws_def)

theorem resolvePythonFromVENV_python_version_witness:
  "existsSync sys_pyenv ''/ws/.python-version''
   \<and> env (proc_with []) ''PYENV_VERSION'' = None
   \<and> fst (resolvePythonFromVENV sys_pyenv settings_ws (proc_with [])) = None
   \<and> snd (resolvePythonFromVENV sys_pyenv settings_ws (proc_with []))
       = (proc_with [])\<lparr>env := (env (proc_with []))(''PYENV_VERSION'' \<mapsto> ''3.10'')\<rparr>"
proof -
  have h1: "\<not> (env_value (proc_with []) ''VIRTUAL_ENV'' \<noteq> []
              \<and> existsSync sys_pyenv
                   (path_join sys_pyenv [env_value (proc_with []) ''VIRTUAL_ENV'', ''pyvenv.cfg'']))"
    and h2: "env_value (proc_with []) ''CONDA_PREFIX'' = []"
    and h4: "env_value (proc_with []) ''PYENV_VERSION'' = []"
    by (simp_all add: env_value_def proc_with_def)
  have h3: "existsSync sys_pyenv (path_join sys_pyenv [workspaceRoot settings_ws, ''.python-version''])"
    by (simp add: sys_pyenv_facts)
  note t = resolvePythonFromVENV_python_version
      [of "proc_with []" sys_pyenv settings_ws "''python''", OF h1 h2 h3]
  from t h4 have "fst (resolvePythonFromVENV sys_pyenv settings_ws (proc_with [])) = None"
    by blast
  moreover from t h4 have "snd (resolvePythonFromVENV sys_pyenv settings_ws (proc_with []))
       = (proc_with [])\<lparr>env := (env (proc_with []))(''PYENV_VERSION'' \<mapsto> ''3.10'')\<rparr>"
    by (simp add: sys_pyenv_facts js_trim_def is_whitespace_def)
  moreover have "env (proc_with []) ''PYENV_VERSION'' = None"
    by (simp add: proc_with_def)
  ultimately show ?thesis
    using sys_pyenv_facts(2) by blast
qed

text \<open>
  Claim C6 as stated says that the first line of the file is recorded in \<open>PYENV_VERSION\<close>.
  With \<open>PYENV_VERSION\<close> set to \<open>3.8\<close> before the call and a file whose first line is
  \<open>3.10\<close>, the variable is still \<open>3.8\<close> after the call.
\<close>

theorem python_version_hint_counterexample:
  "env_value (proc_with [(''PYENV_VERSION'', ''3.8'')]) ''VIRTUAL_ENV'' = []
   \<and> env_value (proc_with [(''PYENV_VERSION'', ''3.8'')]) ''CONDA_PREFIX'' = []
   \<and> existsSync sys_pyenv (path_join sys_pyenv [workspaceRoot settings_ws, ''.python-version''])
   \<and> readFileSync sys_pyenv (path_join sys_pyenv [workspaceRoot settings_ws, ''.python-version''])
       = Inr (''3.10'' @ [CHR 0x0A] @ ''3.9'' @ [CHR 0x0A])
   \<and> env (snd (resolvePythonFromVENV sys_pyenv settings_ws (proc_with [(''PYENV_VERSION'', ''3.8'')])))
         ''PYENV_VERSION'' = Some ''3.8''
   \<and> env (snd (resolvePythonFromVENV sys_pyenv settings_ws (proc_with [(''PYENV_VERSION'', ''3.8'')])))
         ''PYENV_VERSION'' \<noteq> Some ''3.10''"
  by (simp add: resolvePythonFromVENV_def resolve_try_def env_value_def proc_with_def
        sys_pyenv_facts)

text \<open>
  Claim C5, as amended. When no earlier probe matches (virtualenv, conda, \<open>.python-version\<close>,
  \<open>Pipfile\<close>), \<open>poetry.lock\<close> exists in the workspace root, and
  \<open>poetry env list --full-path --no-ansi\<close>, run in the workspace root, gives the output \<open>out\<close>:
  the chosen text is that of the first line of the trimmed output that contains
  \<open>(Activated)\<close>, with the marker removed and the rest trimmed, or the last line if no line
  is marked. If the chosen text is not empty, the result is the interpreter under it when
  that file exists, and no interpreter otherwise. If it is empty, resolution goes on with
  the scan of the workspace root for a virtualenv.
\<close>

theorem resolvePythonFromVENV_poetry:
  assumes "\<not> (env_value pr ''VIRTUAL_ENV'' \<noteq> []
              \<and> existsSync s (path_join s [env_value pr ''VIRTUAL_ENV'', ''pyvenv.cfg'']))"
    and "env_value pr ''CONDA_PREFIX'' = []"
    and "\<not> existsSync s (path_join s [workspaceRoot st, ''.python-version''])"
    and "\<not> existsSync s (path_join s [workspaceRoot st, ''Pipfile''])"
    and "existsSync s (path_join s [workspaceRoot st, ''poetry.lock''])"
    and "child_stdout s (env pr) ''poetry'' [''env'', ''list'', ''--full-path'', ''--no-ansi'']
           (Some (workspaceRoot st)) = Some out"
  shows "(poetry_choice (js_split (CHR 0x0A) (js_trim out)) \<noteq> [] \<longrightarrow>
            resolvePythonFromVENV s st pr =
              (pythonBinFromPath s (poetry_choice (js_split (CHR 0x0A) (js_trim out))),
               pr\<lparr>calls := calls pr @ [Spawn ''poetry'' [''env'', ''list'', ''--full-path'', ''--no-ansi'']
                                          (Some (workspaceRoot st))]\<rparr>))
      \<and> (poetry_choice (js_split (CHR 0x0A) (js_trim out)) = [] \<longrightarrow>
            resolvePythonFromVENV s st pr =
              (case workspace_probe s (workspaceRoot st)
                      (pr\<lparr>calls := calls pr @ [Spawn ''poetry'' [''env'', ''list'', ''--full-path'', ''--no-ansi'']
                                                 (Some (workspaceRoot st))]\<rparr>) of
                 (Inr r, pr') \<Rightarrow> (r, pr')
               | (Inl e, pr') \<Rightarrow> (None, pr'\<lparr>console := console pr' @ [e]\<rparr>)))"
proof -
  let ?pr' = "pr\<lparr>calls := calls pr @ [Spawn ''poetry'' [''env'', ''list'', ''--full-path'', ''--no-ansi'']
                                          (Some (workspaceRoot st))]\<rparr>"
  let ?info = "poetry_choice (js_split (CHR 0x0A) (js_trim out))"
  have i: "poetry_info (js_split (CHR 0x0A) (js_trim out)) '''' = ?info"
    by (simp add: poetry_info_choice js_split_not_empty)
  have r: "resolve_try s (workspaceRoot st) pr =
     (if ?info \<noteq> [] then (Inr (pythonBinFromPath s ?info), ?pr')
      else workspace_probe s (workspaceRoot st) ?pr')"
    using assms by (auto simp: resolve_try_def spawnSync_def i)
  show ?thesis
    by (simp add: resolvePythonFromVENV_def r)
qed

lemma sys_poetry_facts:
  "path_join sys_poetry [''/ws'', ''.python-version''] = ''/ws/.python-version''"
  "path_join sys_poetry [''/ws'', ''Pipfile''] = ''/ws/Pipfile''"
  "path_join sys_poetry [''/ws'', ''poetry.lock''] = ''/ws/poetry.lock''"
  "\<not> existsSync sys_poetry ''/ws/.python-version''"
  "\<not> existsSync sys_poetry ''/ws/Pipfile''"
  "existsSync sys_poetry ''/ws/poetry.lock''"
  "child_stdout sys_poetry e ''poetry'' [''env'', ''list'', ''--full-path'', ''--no-ansi''] cwd
     = Some (''/cache/a-py3.9'' @ [CHR 0x0A] @ ''/cache/b-py3.10 (Activated)'' @ [CHR 0x0A])"
  by (simp_all add: sys_poetry_def posix_sys_def posix_join_def poetry_args_def)

lemma poetry_choice_example:
  "poetry_choice (js_split (CHR 0x0A)
     (js_trim (''/cache/a-py3.9'' @ [CHR 0x0A] @ ''/cache/b-py3.10 (Activated)'' @ [CHR 0x0A])))
   = ''/cache/b-py3.10''"
  by (simp add: poetry_choice_def js_trim_def is_whitespace_def)

theorem resolvePythonFromVENV_poetry_witness:
  "existsSync sys_poetry ''/ws/poetry.lock''
   \<and> resolvePythonFromVENV sys_poetry settings_ws (proc_with []) =
        (Some ''/cache/b-py3.10/bin/python'',
         (proc_with [])\<lparr>calls := [Spawn ''poetry'' [''env'', ''list'', ''--full-path'', ''--no-ansi'']
                                      (Some ''/ws'')]\<rparr>)"
proof -
  have w: "workspaceRoot settings_ws = ''/ws''" by (simp add: settings_ws_def)
  have h1: "\<not> (env_value (proc_with []) ''VIRTUAL_ENV'' \<noteq> []
              \<and> existsSync sys_poetry
                   (path_join sys_poetry [env_value (proc_with []) ''VIRTUAL_ENV'', ''pyvenv.cfg'']))"
    and h2: "env_value (proc_with []) ''CONDA_PREFIX'' = []"
    by (simp_all add: env_value_def proc_with_def)
  have h3: "\<not> existsSync sys_poetry (path_join sys_poetry [workspaceRoot settings_ws, ''.python-version''])"
    and h4: "\<not> existsSync sys_poetry (path_join sys_poetry [workspaceRoot settings_ws, ''Pipfile''])"
    and h5: "existsSync sys_poetry (path_join sys_poetry [workspaceRoot settings_ws, ''poetry.lock''])"
    by (simp_all add: w sys_poetry_facts)
  have h6: "child_stdout sys_poetry (env (proc_with [])) ''poetry''
              [''env'', ''list'', ''--full-path'', ''--no-ansi''] (Some (workspaceRoot settings_ws))
            = Some (''/cache/a-py3.9'' @ [CHR 0x0A] @ ''/cache/b-py3.10 (Activated)'' @ [CHR 0x0A])"
    by (rule sys_poetry_facts)
  have b: "pythonBinFromPath sys_poetry ''/cache/b-py3.10'' = Some ''/cache/b-py3.10/bin/python''"
    by (simp add: pythonBinFromPath_def sys_poetry_def posix_sys_def posix_join_def)
  have c: "calls (proc_with []) = []" by (simp add: proc_with_def)
  note t = resolvePythonFromVENV_poetry
      [of "proc_with []" sys_poetry settings_ws
          "''/cache/a-py3.9'' @ [CHR 0x0A] @ ''/cache/b-py3.10 (Activated)'' @ [CHR 0x0A]",
       OF h1 h2 h3 h4 h5 h6]
  from t have "resolvePythonFromVENV sys_poetry settings_ws (proc_with []) =
        (Some ''/cache/b-py3.10/bin/python'',
         (proc_with [])\<lparr>calls := [Spawn ''poetry'' [''env'', ''list'', ''--full-path'', ''--no-ansi'']
                                      (Some ''/ws'')]\<rparr>)"
    unfolding poetry_choice_example by (simp add: b c w)
  then show ?thesis using sys_poetry_facts(6) by simp
qed

text \<open>
  Claim C5 as stated says that the chosen line is resolved to its interpreter. When poetry
  lists no environment, the chosen line is empty and has no interpreter under it, but the
  code goes on to the scan of the workspace root and returns the interpreter of \<open>.venv\<close>.
\<close>

theorem poetry_no_environment_counterexample:
  "env_value (proc_with []) ''VIRTUAL_ENV'' = []
   \<and> env_value (proc_with []) ''CONDA_PREFIX'' = []
   \<and> \<not> existsSync sys_poetry_none (path_join sys_poetry_none [workspaceRoot settings_ws, ''.python-version''])
   \<and> \<not> existsSync sys_poetry_none (path_join sys_poetry_none [workspaceRoot settings_ws, ''Pipfile''])
   \<and> existsSync sys_poetry_none (path_join sys_poetry_none [workspaceRoot settings_ws, ''poetry.lock''])
   \<and> child_stdout sys_poetry_none (env (proc_with [])) ''poetry''
         [''env'', ''list'', ''--full-path'', ''--no-ansi''] (Some (workspaceRoot settings_ws)) = Some ''''
   \<and> pythonBinFromPath sys_poetry_none (poetry_choice (js_split (CHR 0x0A) (js_trim ''''))) = None
   \<and> fst (resolvePythonFromVENV sys_poetry_none settings_ws (proc_with []))
        = Some ''/ws/.venv/bin/python''
   \<and> fst (resolvePythonFromVENV sys_poetry_none settings_ws (proc_with []))
        \<noteq> pythonBinFromPath sys_poetry_none (poetry_choice (js_split (CHR 0x0A) (js_trim '''')))"
  by (simp add: resolvePythonFromVENV_def resolve_try_def env_value_def proc_with_def
        sys_poetry_none_def posix_sys_def posix_join_def poetry_args_def settings_ws_def
        spawnSync_def js_trim_def poetry_choice_def pythonBinFromPath_def workspace_probe_def)

subsection \<open>The executable lookup and the setter\<close>

text \<open>
  Claim C7, as amended. Let \<open>p\<close> be the configured path after \<open>untildify\<close>. If \<open>p\<close> is
  \<open>python\<close>, or contains no path separator, or has a base name equal to its directory name
  (\<open>path.basename(p) === path.dirname(p)\<close>, as for \<open>python/python\<close>), then \<open>getPythonExecutable\<close>
  searches the search path for \<open>p\<close> and takes what it finds, when that is not empty, in
  place of \<open>p\<close>; for any other \<open>p\<close> it makes no search and keeps \<open>p\<close>. In both cases it then
  runs the path with \<open>-c print(1234)\<close>, and it returns the path whatever the command prints:
  the returned path does not depend on the output of child processes.
\<close>

theorem getPythonExecutable_lookup:
  "only_python s p =
     (p = ''python'' \<or> \<not> js_includes p (path_sep s) \<or> path_basename s p = path_dirname s p)
   \<and> (only_python s (untildify s value) \<longrightarrow>
        getPythonExecutable s value pr =
          ((case which_sync s (env pr) (untildify s value) of
              None \<Rightarrow> untildify s value
            | Some bin \<Rightarrow> if bin \<noteq> [] then bin else untildify s value),
           pr\<lparr>calls := calls pr @
                [Which (untildify s value),
                 Spawn (case which_sync s (env pr) (untildify s value) of
                          None \<Rightarrow> untildify s value
                        | Some bin \<Rightarrow> if bin \<noteq> [] then bin else untildify s value)
                   [''-c'', ''print(1234)''] None]\<rparr>))
   \<and> (\<not> only_python s (untildify s value) \<longrightarrow>
        getPythonExecutable s value pr =
          (untildify s value,
           pr\<lparr>calls := calls pr @ [Spawn (untildify s value) [''-c'', ''print(1234)''] None]\<rparr>))
   \<and> fst (getPythonExecutable (s\<lparr>child_stdout := out\<rparr>) value pr)
        = fst (getPythonExecutable s value pr)"
  by (simp add: getPythonExecutable_eq lookup_def only_python_def)

theorem getPythonExecutable_lookup_witness:
  "only_python sys_which ''python''
   \<and> getPythonExecutable sys_which ''python'' (proc_with []) =
        (''/usr/bin/python3'',
         (proc_with [])\<lparr>calls := [Which ''python'',
                                  Spawn ''/usr/bin/python3'' [''-c'', ''print(1234)''] None]\<rparr>)
   \<and> fst (isValidPythonPath sys_which ''/usr/bin/python3'' (proc_with []))
   \<and> \<not> only_python sys_which ''/opt/python/python''
   \<and> getPythonExecutable sys_which ''/opt/python/python'' (proc_with []) =
        (''/opt/python/python'',
         (proc_with [])\<lparr>calls := [Spawn ''/opt/python/python'' [''-c'', ''print(1234)''] None]\<rparr>)
   \<and> \<not> fst (isValidPythonPath sys_which ''/opt/python/python'' (proc_with []))"
proof -
  have o1: "only_python sys_which ''python''"
    by (simp add: only_python_def)
  have o2: "\<not> only_python sys_which ''/opt/python/python''"
    by (simp add: only_python_def sys_which_def posix_sys_def posix_basename_def posix_dirname_def)
  have u: "untildify sys_which p = p" "which_sync sys_which e ''python'' = Some ''/usr/bin/python3''"
    for p e
    by (simp_all add: sys_which_def posix_sys_def)
  have c: "calls (proc_with []) = []" by (simp add: proc_with_def)
  have v1: "fst (isValidPythonPath sys_which ''/usr/bin/python3'' (proc_with []))"
    by (simp add: isValidPythonPath_def spawnSync_def sys_which_def posix_sys_def)
  have v2: "\<not> fst (isValidPythonPath sys_which ''/opt/python/python'' (proc_with []))"
    by (simp add: isValidPythonPath_def spawnSync_def sys_which_def posix_sys_def)
  from getPythonExecutable_lookup [of sys_which "''python''" "''python''" "proc_with []"] o1
  have g1: "getPythonExecutable sys_which ''python'' (proc_with []) =
        (''/usr/bin/python3'',
         (proc_with [])\<lparr>calls := [Which ''python'',
                                  Spawn ''/usr/bin/python3'' [''-c'', ''print(1234)''] None]\<rparr>)"
    by (simp add: u c)
  from getPythonExecutable_lookup
         [of sys_which "''python''" "''/opt/python/python''" "proc_with []"] o2
  have g2: "getPythonExecutable sys_which ''/opt/python/python'' (proc_with []) =
        (''/opt/python/python'',
         (proc_with [])\<lparr>calls := [Spawn ''/opt/python/python'' [''-c'', ''print(1234)''] None]\<rparr>)"
    by (simp add: u c)
  from o1 o2 v1 v2 g1 g2 show ?thesis by simp
qed

text \<open>
  Claim C7 as stated counts a path whose last two segments are identical as a bare command
  name and says that the search path is searched for it. The last two segments of
  \<open>/opt/python/python\<close> are identical, but its base name \<open>python\<close> is not its directory name
  \<open>/opt/python\<close>: the only call that \<open>getPythonExecutable\<close> makes is the validation, and the
  search path is not searched.
\<close>

theorem last_two_segments_counterexample:
  "last_two_segments_identical (CHR ''/'') ''/opt/python/python''
   \<and> untildify sys_which ''/opt/python/python'' = ''/opt/python/python''
   \<and> which_sync sys_which (env (proc_with [])) ''/opt/python/python'' = Some ''/opt/python/python''
   \<and> path_basename sys_which ''/opt/python/python'' = ''python''
   \<and> path_dirname sys_which ''/opt/python/python'' = ''/opt/python''
   \<and> calls (snd (getPythonExecutable sys_which ''/opt/python/python'' (proc_with [])))
        = [Spawn ''/opt/python/python'' [''-c'', ''print(1234)''] None]
   \<and> Which ''/opt/python/python''
        \<notin> set (calls (snd (getPythonExecutable sys_which ''/opt/python/python'' (proc_with []))))"
  by (simp add: last_two_segments_identical_def path_segments_def getPythonExecutable_eq
        lookup_def only_python_def sys_which_def posix_sys_def posix_basename_def
        posix_dirname_def proc_with_def)

text \<open>
  Claim C8. Setting \<open>pythonPath\<close> to the cached value changes nothing: the settings (the
  cached path and the site-package list among them) and the process are the same, so no
  search of the search path and no child process has run. Setting it to any other value
  resolves again: the cached path becomes the result of \<open>getPythonExecutable\<close>, the
  site-package list the result of \<open>getStdLibs\<close> on that path, and at least one call has
  been added to the trace.
\<close>

theorem set_pythonPath_equal_value:
  "(priv_pythonPath st = value \<longrightarrow> set_pythonPath s value (st, pr) = (st, pr))
   \<and> (priv_pythonPath st \<noteq> value \<longrightarrow>
        priv_pythonPath (fst (set_pythonPath s value (st, pr))) = fst (getPythonExecutable s value pr)
      \<and> priv_stdLibs (fst (set_pythonPath s value (st, pr)))
          = fst (getStdLibs s (fst (getPythonExecutable s value pr))
                   (snd (getPythonExecutable s value pr)))
      \<and> (\<exists>cs. cs \<noteq> [] \<and> calls (snd (set_pythonPath s value (st, pr))) = calls pr @ cs))"
proof (cases "priv_pythonPath st = value")
  case True
  then show ?thesis by (simp add: set_pythonPath_def)
next
  case False
  obtain p pr1 where g: "getPythonExecutable s value pr = (p, pr1)"
    by (cases "getPythonExecutable s value pr")
  obtain libs pr2 where l: "getStdLibs s p pr1 = (libs, pr2)"
    by (cases "getStdLibs s p pr1")
  from g have "calls pr1 = calls (snd (lookup s (untildify s value) pr))
                  @ [Spawn (fst (lookup s (untildify s value) pr)) [''-c'', ''print(1234)''] None]"
    by (auto simp: getPythonExecutable_eq)
  with lookup_calls [of s "untildify s value" pr]
  obtain cs1 where c1: "calls pr1 = calls pr @ cs1" by auto
  from getStdLibs_calls [of s p pr1] l
  obtain cs2 where c2: "cs2 \<noteq> []" "calls pr2 = calls pr1 @ cs2" by auto
  from c1 c2 have "cs1 @ cs2 \<noteq> [] \<and> calls pr2 = calls pr @ (cs1 @ cs2)" by simp
  then have "\<exists>cs. cs \<noteq> [] \<and> calls pr2 = calls pr @ cs" by blast
  with False g l show ?thesis by (simp add: set_pythonPath_def)
qed

theorem set_pythonPath_equal_value_witness:
  "set_pythonPath sys_which ''/usr/bin/python3''
       (settings_ws\<lparr>priv_pythonPath := ''/usr/bin/python3''\<rparr>, proc_with [])
     = (settings_ws\<lparr>priv_pythonPath := ''/usr/bin/python3''\<rparr>, proc_with [])
   \<and> priv_pythonPath (fst (set_pythonPath sys_which ''python''
         (settings_ws\<lparr>priv_pythonPath := ''/usr/bin/python3''\<rparr>, proc_with [])))
       = ''/usr/bin/python3''
   \<and> calls (snd (set_pythonPath sys_which ''python''
         (settings_ws\<lparr>priv_pythonPath := ''/usr/bin/python3''\<rparr>, proc_with []))) \<noteq> []"
proof -
  let ?st = "settings_ws\<lparr>priv_pythonPath := ''/usr/bin/python3''\<rparr>"
  have e: "priv_pythonPath ?st = ''/usr/bin/python3''" by simp
  have n: "priv_pythonPath ?st \<noteq> ''python''" by simp
  have g: "fst (getPythonExecutable sys_which ''python'' (proc_with [])) = ''/usr/bin/python3''"
    by (simp add: getPythonExecutable_eq lookup_def only_python_def sys_which_def posix_sys_def)
  from set_pythonPath_equal_value [of ?st "''/usr/bin/python3''" sys_which "proc_with []"] e
  have a: "set_pythonPath sys_which ''/usr/bin/python3'' (?st, proc_with []) = (?st, proc_with [])"
    by blast
  from set_pythonPath_equal_value [of ?st "''python''" sys_which "proc_with []"] n
  have b: "priv_pythonPath (fst (set_pythonPath sys_which ''python'' (?st, proc_with [])))
             = fst (getPythonExecutable sys_which ''python'' (proc_with []))"
    and c: "\<exists>cs. cs \<noteq> [] \<and> calls (snd (set_pythonPath sys_which ''python'' (?st, proc_with [])))
               = calls (proc_with []) @ cs"
    by blast+
  from c have "calls (snd (set_pythonPath sys_which ''python'' (?st, proc_with []))) \<noteq> []"
    by auto
  with a b g show ?thesis by simp
qed


end
